theory Spec2Isabelle
  imports Main
begin

section \<open>Values shared by the services\<close>

text \<open>
  Identifiers are the UUID strings of the database, time stamps are points of one clock,
  and JSON documents (\<open>metadata\<close>, request bodies) are carried as their serialised text.
  A character of a HOL string stands for one code unit of a JavaScript string, so
  \<open>substring(0, 100)\<close> is \<open>take 100\<close>.
\<close>

type_synonym uuid = string
type_synonym timestamp = nat
type_synonym json = string

text \<open>The errors of \<open>error.middleware.ts\<close> that the modelled code raises, a PostgreSQL
  error with its SQLSTATE code, and the \<open>RangeError\<close> of Node's \<open>crypto\<close>.\<close>

datatype app_error =
    NotFoundError string
  | UnauthorizedError string
  | DbError string
  | RangeError

text \<open>JavaScript truthiness of a nullable string: \<open>null\<close>, \<open>undefined\<close> and the empty string
  are falsy. \<open>js_or a b\<close> is \<open>a || b\<close>.\<close>

definition truthy :: "string option \<Rightarrow> bool" where
  "truthy v = (case v of None \<Rightarrow> False | Some s \<Rightarrow> s \<noteq> [])"

definition js_or :: "string option \<Rightarrow> string option \<Rightarrow> string option" where
  "js_or a b = (if truthy a then a else b)"

text \<open>\<open>toLowerCase\<close> on the letters A to Z; the keys looked up below are ASCII words. The
  lookup tables of the services are association lists: a key such as \<open>constructor\<close>, which
  a JavaScript object literal inherits from \<open>Object.prototype\<close>, is outside the model.\<close>

definition lower_char :: "char \<Rightarrow> char" where
  "lower_char c =
     (case map_of (zip ''ABCDEFGHIJKLMNOPQRSTUVWXYZ'' ''abcdefghijklmnopqrstuvwxyz'') c of
        Some l \<Rightarrow> l
      | None \<Rightarrow> c)"

definition toLowerCase :: "string \<Rightarrow> string" where
  "toLowerCase s = map lower_char s"

text \<open>SQL equality on nullable columns: a comparison with \<open>NULL\<close> selects no row.\<close>

definition sql_eq :: "'a option \<Rightarrow> 'a option \<Rightarrow> bool" where
  "sql_eq a b = (case a of None \<Rightarrow> False | Some x \<Rightarrow> (case b of None \<Rightarrow> False | Some y \<Rightarrow> x = y))"

section \<open>The database\<close>

text \<open>
  The tables are the ones the statements of the services read and write, with the columns
  those statements name. \<open>users\<close>, \<open>canais\<close>, \<open>contatos\<close> and \<open>agents\<close> are only looked up by
  primary key and are maps from the key; \<open>conversas\<close> and \<open>mensagens\<close> are scanned and are
  lists of rows in insertion order. The services handle a missing table (SQLSTATE 42P01)
  for \<open>conversas\<close> and \<open>mensagens\<close>, so these two are optional, and \<open>messages\<close> is the
  English-named table that \<open>MessagesService.create\<close> falls back to. Column defaults of the
  migration (\<open>id\<close>, \<open>created_at\<close>, \<open>status\<close>, \<open>tipo\<close>, \<open>lida\<close>) are applied on insert; its
  foreign keys and CHECK constraints are not part of the model, and it declares no
  uniqueness constraint on \<open>conversas\<close> or \<open>mensagens\<close> besides the primary key \<open>id\<close>.
  The value that \<open>uuid_generate_v4()\<close> draws for an inserted row is an argument of the
  operation that inserts it. \<open>now\<close> is the clock that \<open>NOW()\<close> and \<open>new Date()\<close> read.
\<close>

record user_row =
  u_tenant_id :: "uuid option"
  u_name :: "string option"

record canal_row =
  ch_tipo :: string
  ch_tenant_id :: uuid

record contato_row =
  ct_nome :: "string option"
  ct_telefone :: "string option"
  ct_email :: "string option"
  ct_avatar :: "string option"

record agent_row =
  a_nome :: "string option"

record conversa_row =
  c_id :: uuid
  c_tenant_id :: uuid
  c_company_id :: "uuid option"
  c_cliente_id :: "string option"
  c_cliente_nome :: "string option"
  c_agente_id :: "uuid option"
  c_canal :: string
  c_status :: string
  c_ultima_mensagem :: "string option"
  c_ultima_atividade :: timestamp
  c_metadata :: "json option"
  c_created_at :: timestamp
  c_updated_at :: timestamp

record mensagem_row =
  m_id :: uuid
  m_tenant_id :: uuid
  m_conversa_id :: uuid
  m_remetente_tipo :: string
  m_remetente_id :: "uuid option"
  m_conteudo :: string
  m_tipo :: "string option"
  m_tipo_mensagem :: "string option"
  m_metadata :: "json option"
  m_lida :: bool
  m_lida_em :: "timestamp option"
  m_resposta_para :: "uuid option"
  m_created_at :: timestamp

record database =
  users :: "uuid \<rightharpoonup> user_row"
  canais :: "uuid \<rightharpoonup> canal_row"
  contatos :: "uuid \<rightharpoonup> contato_row"
  agents :: "uuid \<rightharpoonup> agent_row"
  conversas :: "conversa_row list option"
  mensagens :: "mensagem_row list option"
  messages :: "mensagem_row list option"
  now :: timestamp

text \<open>\<open>SELECT tenant_id FROM users WHERE id = $1\<close>, then
  \<open>rows.length > 0 ? rows[0].tenant_id : null\<close>.\<close>

definition getTenantId :: "database \<Rightarrow> uuid \<Rightarrow> uuid option" where
  "getTenantId d userId = (case users d userId of None \<Rightarrow> None | Some u \<Rightarrow> u_tenant_id u)"

text \<open>\<open>SELECT id FROM conversas WHERE id = $1 AND tenant_id = $2\<close>: the rows selected.\<close>

definition conv_check :: "conversa_row list \<Rightarrow> uuid \<Rightarrow> uuid \<Rightarrow> uuid list" where
  "conv_check cs conversationId tenantId =
     map c_id (filter (\<lambda>c. c_id c = conversationId \<and> c_tenant_id c = tenantId) cs)"

text \<open>\<open>remetente_tipo IN ('cliente', 'customer')\<close>.\<close>

definition customer_authored :: "mensagem_row \<Rightarrow> bool" where
  "customer_authored m = (m_remetente_tipo m = ''cliente'' \<or> m_remetente_tipo m = ''customer'')"

section \<open>API responses\<close>

text \<open>\<open>MessageResponse\<close> and \<open>ConversationResponse\<close>, with their expanded fields.\<close>

record sender_info =
  si_id :: "uuid option"
  si_name :: string
  si_avatar :: "string option"

record message_response =
  mr_id :: uuid
  mr_tenant_id :: uuid
  mr_conversation_id :: "uuid option"
  mr_sender_type :: string
  mr_sender_id :: "uuid option"
  mr_content :: "string option"
  mr_type :: string
  mr_metadata :: "json option"
  mr_read :: bool
  mr_reply_to_id :: "uuid option"
  mr_created_at :: timestamp
  mr_sender :: "sender_info option"

record customer_info =
  cu_id :: "string option"
  cu_name :: string
  cu_phone :: "string option"
  cu_email :: "string option"
  cu_avatar :: "string option"

record agent_info =
  ag_id :: "uuid option"
  ag_name :: string
  ag_avatar :: "string option"

record conversation_response =
  cr_id :: uuid
  cr_tenant_id :: uuid
  cr_company_id :: "uuid option"
  cr_customer_id :: "string option"
  cr_agent_id :: "uuid option"
  cr_channel :: "string option"
  cr_status :: string
  cr_last_message :: "string option"
  cr_last_activity :: timestamp
  cr_metadata :: "json option"
  cr_created_at :: timestamp
  cr_updated_at :: timestamp
  cr_customer :: "customer_info option"
  cr_agent :: "agent_info option"
  cr_unread_count :: "nat option"

section \<open>The realtime hub (\<open>config/socket.ts\<close>)\<close>

text \<open>
  The Socket.IO server is modelled by what the code relies on: a socket has the user and
  tenant fixed by \<open>authenticateSocket\<close>, the set of rooms it has joined, and the events
  the server has sent to its client, oldest first. The server is the map from socket id
  to connected socket; \<open>io\<close> is \<open>null\<close> until \<open>initializeSocket\<close> has run.
  \<open>io.to(room).emit\<close> sends to every socket in the room, \<open>socket.to(room).emit\<close> to every
  socket in the room but the sending one, \<open>socket.emit\<close> to the socket itself.
\<close>

datatype payload =
    MessagePayload message_response
  | ConversationPayload conversation_response
  | ReadPayload uuid "uuid list"
  | TypingStartPayload uuid uuid string
  | TypingStopPayload uuid uuid
  | UserPayload uuid
  | ErrorPayload string

type_synonym event = "string \<times> payload"

record socket =
  userId :: uuid
  tenantId :: uuid
  rooms :: "string set"
  inbox :: "event list"

type_synonym server = "string \<rightharpoonup> socket"

record world =
  db :: database
  io :: "server option"

definition tenant_room :: "uuid \<Rightarrow> string" where
  "tenant_room tenant = ''tenant:'' @ tenant"

definition conversation_room :: "uuid \<Rightarrow> string" where
  "conversation_room conversationId = ''conversation:'' @ conversationId"

definition deliver :: "event \<Rightarrow> socket \<Rightarrow> socket" where
  "deliver ev s = s\<lparr>inbox := inbox s @ [ev]\<rparr>"

definition io_to_emit :: "string \<Rightarrow> event \<Rightarrow> server \<Rightarrow> server" where
  "io_to_emit room ev srv =
     (\<lambda>k. case srv k of
            None \<Rightarrow> None
          | Some s \<Rightarrow> Some (if room \<in> rooms s then deliver ev s else s))"

definition socket_to_emit :: "string \<Rightarrow> string \<Rightarrow> event \<Rightarrow> server \<Rightarrow> server" where
  "socket_to_emit sid room ev srv =
     (\<lambda>k. case srv k of
            None \<Rightarrow> None
          | Some s \<Rightarrow> Some (if k \<noteq> sid \<and> room \<in> rooms s then deliver ev s else s))"

definition socket_emit :: "string \<Rightarrow> event \<Rightarrow> server \<Rightarrow> server" where
  "socket_emit sid ev srv =
     (\<lambda>k. case srv k of
            None \<Rightarrow> None
          | Some s \<Rightarrow> Some (if k = sid then deliver ev s else s))"

definition socket_join :: "string \<Rightarrow> string \<Rightarrow> server \<Rightarrow> server" where
  "socket_join sid room srv =
     (\<lambda>k. case srv k of
            None \<Rightarrow> None
          | Some s \<Rightarrow> Some (if k = sid then s\<lparr>rooms := insert room (rooms s)\<rparr> else s))"

definition socket_leave :: "string \<Rightarrow> string \<Rightarrow> server \<Rightarrow> server" where
  "socket_leave sid room srv =
     (\<lambda>k. case srv k of
            None \<Rightarrow> None
          | Some s \<Rightarrow> Some (if k = sid then s\<lparr>rooms := rooms s - {room}\<rparr> else s))"

text \<open>What a client has been sent, and whether a connection is in a room.\<close>

definition inbox_of :: "world \<Rightarrow> string \<Rightarrow> event list" where
  "inbox_of w sid =
     (case io w of
        None \<Rightarrow> []
      | Some srv \<Rightarrow> (case srv sid of None \<Rightarrow> [] | Some s \<Rightarrow> inbox s))"

definition member_of :: "world \<Rightarrow> string \<Rightarrow> string \<Rightarrow> bool" where
  "member_of w sid room =
     (case io w of
        None \<Rightarrow> False
      | Some srv \<Rightarrow> (case srv sid of None \<Rightarrow> False | Some s \<Rightarrow> room \<in> rooms s))"

subsection \<open>The exported emitters\<close>

definition emitToTenant :: "world \<Rightarrow> uuid \<Rightarrow> event \<Rightarrow> world" where
  "emitToTenant w tenant ev =
     (case io w of
        None \<Rightarrow> w
      | Some srv \<Rightarrow> w\<lparr>io := Some (io_to_emit (tenant_room tenant) ev srv)\<rparr>)"

definition emitToConversation :: "world \<Rightarrow> uuid \<Rightarrow> event \<Rightarrow> world" where
  "emitToConversation w conversationId ev =
     (case io w of
        None \<Rightarrow> w
      | Some srv \<Rightarrow> w\<lparr>io := Some (io_to_emit (conversation_room conversationId) ev srv)\<rparr>)"

text \<open>\<open>emitNewMessage\<close>: to the conversation room first, then to the tenant room.\<close>

definition emitNewMessage :: "world \<Rightarrow> uuid \<Rightarrow> uuid \<Rightarrow> message_response \<Rightarrow> world" where
  "emitNewMessage w tenant conversationId message =
     (case io w of
        None \<Rightarrow> w
      | Some srv \<Rightarrow>
          w\<lparr>io := Some (io_to_emit (tenant_room tenant) (''message:new'', MessagePayload message)
                        (io_to_emit (conversation_room conversationId)
                           (''message:new'', MessagePayload message) srv))\<rparr>)"

definition emitConversationUpdate :: "world \<Rightarrow> uuid \<Rightarrow> conversation_response \<Rightarrow> world" where
  "emitConversationUpdate w tenant conversation =
     (case io w of
        None \<Rightarrow> w
      | Some srv \<Rightarrow>
          w\<lparr>io := Some (io_to_emit (tenant_room tenant)
                        (''conversation:updated'', ConversationPayload conversation) srv)\<rparr>)"

definition emitNewConversation :: "world \<Rightarrow> uuid \<Rightarrow> conversation_response \<Rightarrow> world" where
  "emitNewConversation w tenant conversation =
     (case io w of
        None \<Rightarrow> w
      | Some srv \<Rightarrow>
          w\<lparr>io := Some (io_to_emit (tenant_room tenant)
                        (''conversation:new'', ConversationPayload conversation) srv)\<rparr>)"

section \<open>The conversation directory (\<open>conversations.service.ts\<close>)\<close>

text \<open>\<open>nonempty s\<close> is \<open>s || undefined\<close> for a column that is not null.\<close>

definition nonempty :: "string \<Rightarrow> string option" where
  "nonempty s = (if s = [] then None else Some s)"

definition statusPtToEn :: "(string \<times> string) list" where
  "statusPtToEn =
     [(''aberta'', ''open''), (''em_atendimento'', ''in_progress''),
      (''resolvida'', ''resolved''), (''fechada'', ''closed''),
      (''open'', ''open''), (''in_progress'', ''in_progress''),
      (''resolved'', ''resolved''), (''closed'', ''closed'')]"

definition statusEnToPt :: "(string \<times> string) list" where
  "statusEnToPt =
     [(''open'', ''aberta''), (''in_progress'', ''em_atendimento''),
      (''resolved'', ''resolvida''), (''closed'', ''fechada'')]"

definition mapStatusToEn :: "string \<Rightarrow> string" where
  "mapStatusToEn status =
     (case map_of statusPtToEn (toLowerCase status) of
        Some v \<Rightarrow> v
      | None \<Rightarrow> if status \<noteq> [] then status else ''open'')"

definition mapStatusToPt :: "string \<Rightarrow> string" where
  "mapStatusToPt status =
     (case map_of statusEnToPt (toLowerCase status) of
        Some v \<Rightarrow> v
      | None \<Rightarrow> if status \<noteq> [] then status else ''aberta'')"

text \<open>The columns a query joins to a row of \<open>conversas\<close>.\<close>

record conv_join =
  customer_name :: "string option"
  customer_phone :: "string option"
  customer_email :: "string option"
  customer_avatar :: "string option"
  agent_name :: "string option"
  agent_avatar :: "string option"
  unread_count :: "nat option"

definition mapConversationToResponse :: "conversa_row \<Rightarrow> conv_join \<Rightarrow> conversation_response" where
  "mapConversationToResponse conv j =
     \<lparr>cr_id = c_id conv,
      cr_tenant_id = c_tenant_id conv,
      cr_company_id = c_company_id conv,
      cr_customer_id = js_or (c_cliente_id conv) None,
      cr_agent_id = js_or (c_agente_id conv) None,
      cr_channel = nonempty (c_canal conv),
      cr_status = mapStatusToEn (c_status conv),
      cr_last_message = js_or (c_ultima_mensagem conv) None,
      cr_last_activity = c_ultima_atividade conv,
      cr_metadata = c_metadata conv,
      cr_created_at = c_created_at conv,
      cr_updated_at = c_updated_at conv,
      cr_customer =
        (case customer_name j of
           None \<Rightarrow> None
         | Some n \<Rightarrow>
             if n = [] then None
             else Some \<lparr>cu_id = js_or (c_cliente_id conv) None, cu_name = n,
                        cu_phone = customer_phone j, cu_email = customer_email j,
                        cu_avatar = customer_avatar j\<rparr>),
      cr_agent =
        (case agent_name j of
           None \<Rightarrow> None
         | Some n \<Rightarrow>
             if n = [] then None
             else Some \<lparr>ag_id = js_or (c_agente_id conv) None, ag_name = n,
                        ag_avatar = agent_avatar j\<rparr>),
      cr_unread_count = unread_count j\<rparr>"

text \<open>\<open>LEFT JOIN contatos ct ON c.cliente_id = ct.id\<close> and
  \<open>LEFT JOIN agents a ON c.agente_id = a.id\<close>: the joined row, if any.\<close>

definition joined_contato :: "database \<Rightarrow> conversa_row \<Rightarrow> contato_row option" where
  "joined_contato d c = (case c_cliente_id c of None \<Rightarrow> None | Some k \<Rightarrow> contatos d k)"

definition joined_agent :: "database \<Rightarrow> conversa_row \<Rightarrow> agent_row option" where
  "joined_agent d c = (case c_agente_id c of None \<Rightarrow> None | Some k \<Rightarrow> agents d k)"

definition coalesce :: "string option \<Rightarrow> string \<Rightarrow> string" where
  "coalesce v dflt = (case v of None \<Rightarrow> dflt | Some s \<Rightarrow> s)"

text \<open>The select list of \<open>getById\<close>: the joined names, \<open>COALESCE(a.nome, 'AG')\<close> as the
  agent's avatar, and the sub-select that counts the unread messages of the conversation
  whose \<open>remetente_tipo\<close> is \<open>'customer'\<close>.\<close>

definition getById_join :: "database \<Rightarrow> mensagem_row list \<Rightarrow> conversa_row \<Rightarrow> conv_join" where
  "getById_join d ms c =
     \<lparr>customer_name = (case joined_contato d c of None \<Rightarrow> None | Some ct \<Rightarrow> ct_nome ct),
      customer_phone = (case joined_contato d c of None \<Rightarrow> None | Some ct \<Rightarrow> ct_telefone ct),
      customer_email = (case joined_contato d c of None \<Rightarrow> None | Some ct \<Rightarrow> ct_email ct),
      customer_avatar = (case joined_contato d c of None \<Rightarrow> None | Some ct \<Rightarrow> ct_avatar ct),
      agent_name = (case joined_agent d c of None \<Rightarrow> None | Some a \<Rightarrow> a_nome a),
      agent_avatar =
        Some (coalesce (case joined_agent d c of None \<Rightarrow> None | Some a \<Rightarrow> a_nome a) ''AG''),
      unread_count =
        Some (length (filter (\<lambda>m. m_conversa_id m = c_id c \<and> \<not> m_lida m
                                   \<and> m_remetente_tipo m = ''customer'') ms))\<rparr>"

definition getById :: "database \<Rightarrow> uuid \<Rightarrow> uuid \<Rightarrow> app_error + conversation_response" where
  "getById d ident user =
     (case getTenantId d user of
        None \<Rightarrow> Inl (NotFoundError ''Conversation'')
      | Some tenant \<Rightarrow>
          if tenant = [] then Inl (NotFoundError ''Conversation'')
          else
            (case conversas d of
               None \<Rightarrow> Inl (NotFoundError ''Conversation'')
             | Some cs \<Rightarrow>
                 (case mensagens d of
                    None \<Rightarrow> Inl (NotFoundError ''Conversation'')
                  | Some ms \<Rightarrow>
                      (case filter (\<lambda>c. c_id c = ident \<and> c_tenant_id c = tenant) cs of
                         [] \<Rightarrow> Inl (NotFoundError ''Conversation'')
                       | c # _ \<Rightarrow> Inr (mapConversationToResponse c (getById_join d ms c))))))"

text \<open>\<open>UPDATE conversas SET status = $1, updated_at = NOW(), ultima_atividade = NOW()
  WHERE id = $2 AND tenant_id = $3 RETURNING *\<close>.\<close>

definition update_status_rows ::
  "conversa_row list \<Rightarrow> timestamp \<Rightarrow> string \<Rightarrow> uuid \<Rightarrow> uuid \<Rightarrow> conversa_row list" where
  "update_status_rows cs t dbStatus ident tenant =
     map (\<lambda>c. if c_id c = ident \<and> c_tenant_id c = tenant
               then c\<lparr>c_status := dbStatus, c_updated_at := t, c_ultima_atividade := t\<rparr>
               else c) cs"

definition updateStatus ::
  "world \<Rightarrow> uuid \<Rightarrow> uuid \<Rightarrow> string \<Rightarrow> (app_error + conversation_response) \<times> world" where
  "updateStatus w ident user status =
     (case getTenantId (db w) user of
        None \<Rightarrow> (Inl (NotFoundError ''User''), w)
      | Some tenant \<Rightarrow>
          if tenant = [] then (Inl (NotFoundError ''User''), w)
          else
            (case conversas (db w) of
               None \<Rightarrow> (Inl (NotFoundError ''Conversation''), w)
             | Some cs \<Rightarrow>
                 if filter (\<lambda>c. c_id c = ident \<and> c_tenant_id c = tenant) cs = []
                 then (Inl (NotFoundError ''Conversation''), w)
                 else
                   (let d' = (db w)\<lparr>conversas :=
                                Some (update_status_rows cs (now (db w)) (mapStatusToPt status)
                                        ident tenant)\<rparr>
                    in (getById d' ident user, w\<lparr>db := d'\<rparr>))))"

text \<open>\<open>UPDATE conversas SET agente_id = $1, status = 'em_atendimento', updated_at = NOW(),
  ultima_atividade = NOW() WHERE id = $2 AND tenant_id = $3 RETURNING *\<close>.\<close>

definition assign_agent_rows ::
  "conversa_row list \<Rightarrow> timestamp \<Rightarrow> uuid \<Rightarrow> uuid \<Rightarrow> uuid \<Rightarrow> conversa_row list" where
  "assign_agent_rows cs t agentId ident tenant =
     map (\<lambda>c. if c_id c = ident \<and> c_tenant_id c = tenant
               then c\<lparr>c_agente_id := Some agentId, c_status := ''em_atendimento'',
                      c_updated_at := t, c_ultima_atividade := t\<rparr>
               else c) cs"

definition assignAgent ::
  "world \<Rightarrow> uuid \<Rightarrow> uuid \<Rightarrow> uuid \<Rightarrow> (app_error + conversation_response) \<times> world" where
  "assignAgent w ident user agentId =
     (case getTenantId (db w) user of
        None \<Rightarrow> (Inl (NotFoundError ''User''), w)
      | Some tenant \<Rightarrow>
          if tenant = [] then (Inl (NotFoundError ''User''), w)
          else
            (case conversas (db w) of
               None \<Rightarrow> (Inl (NotFoundError ''Conversation''), w)
             | Some cs \<Rightarrow>
                 if filter (\<lambda>c. c_id c = ident \<and> c_tenant_id c = tenant) cs = []
                 then (Inl (NotFoundError ''Conversation''), w)
                 else
                   (let d' = (db w)\<lparr>conversas :=
                                Some (assign_agent_rows cs (now (db w)) agentId ident tenant)\<rparr>
                    in (getById d' ident user, w\<lparr>db := d'\<rparr>))))"

definition close_conversation ::
  "world \<Rightarrow> uuid \<Rightarrow> uuid \<Rightarrow> (app_error + conversation_response) \<times> world" where
  "close_conversation w ident user = updateStatus w ident user ''closed''"

text \<open>\<open>getByTenantId\<close>, for webhooks: the tenant is given, any error is \<open>null\<close>. Its select
  list has the joined names only.\<close>

definition getByTenantId :: "database \<Rightarrow> uuid \<Rightarrow> uuid \<Rightarrow> conversation_response option" where
  "getByTenantId d tenant conversationId =
     (case conversas d of
        None \<Rightarrow> None
      | Some cs \<Rightarrow>
          (case filter (\<lambda>c. c_id c = conversationId \<and> c_tenant_id c = tenant) cs of
             [] \<Rightarrow> None
           | c # _ \<Rightarrow>
               Some (mapConversationToResponse c
                 \<lparr>customer_name = (case joined_contato d c of None \<Rightarrow> None | Some ct \<Rightarrow> ct_nome ct),
                  customer_phone = (case joined_contato d c of None \<Rightarrow> None | Some ct \<Rightarrow> ct_telefone ct),
                  customer_email = (case joined_contato d c of None \<Rightarrow> None | Some ct \<Rightarrow> ct_email ct),
                  customer_avatar = None,
                  agent_name = (case joined_agent d c of None \<Rightarrow> None | Some a \<Rightarrow> a_nome a),
                  agent_avatar = None,
                  unread_count = None\<rparr>)))"

text \<open>\<open>updateLastMessage\<close>: \<open>UPDATE conversas SET ultima_mensagem = $1, ultima_atividade =
  NOW(), updated_at = NOW() WHERE id = $2\<close>, with no tenant in the condition; an error is
  swallowed.\<close>

definition updateLastMessage :: "database \<Rightarrow> uuid \<Rightarrow> string \<Rightarrow> database" where
  "updateLastMessage d conversationId message =
     (case conversas d of
        None \<Rightarrow> d
      | Some cs \<Rightarrow>
          d\<lparr>conversas :=
              Some (map (\<lambda>c. if c_id c = conversationId
                              then c\<lparr>c_ultima_mensagem := Some message,
                                     c_ultima_atividade := now d, c_updated_at := now d\<rparr>
                              else c) cs)\<rparr>)"

section \<open>The message store (\<open>messages.service.ts\<close>)\<close>

text \<open>The sender types that \<open>createMessageSchema\<close> admits on the authenticated path.\<close>

definition senderTypes :: "string list" where
  "senderTypes = [''customer'', ''agent'', ''system'', ''bot'']"

definition senderTypePtToEn :: "(string \<times> string) list" where
  "senderTypePtToEn =
     [(''cliente'', ''customer''), (''agente'', ''agent''), (''sistema'', ''system''),
      (''bot'', ''bot''), (''customer'', ''customer''), (''agent'', ''agent''),
      (''system'', ''system'')]"

definition senderTypeEnToPt :: "(string \<times> string) list" where
  "senderTypeEnToPt =
     [(''customer'', ''cliente''), (''agent'', ''agente''), (''system'', ''sistema''),
      (''bot'', ''bot'')]"

definition mapSenderTypeToEn :: "string \<Rightarrow> string" where
  "mapSenderTypeToEn t =
     (case map_of senderTypePtToEn (toLowerCase t) of
        Some v \<Rightarrow> v
      | None \<Rightarrow> if t \<noteq> [] then t else ''system'')"

definition mapSenderTypeToPt :: "string \<Rightarrow> string" where
  "mapSenderTypeToPt t =
     (case map_of senderTypeEnToPt (toLowerCase t) of
        Some v \<Rightarrow> v
      | None \<Rightarrow> if t \<noteq> [] then t else ''sistema'')"

text \<open>\<open>mapMessageToResponse\<close>; the row comes with the \<open>sender_name\<close> and \<open>sender_avatar\<close>
  columns when the query joined them, and without them from \<open>RETURNING *\<close>.\<close>

definition mapMessageToResponse ::
  "mensagem_row \<Rightarrow> string option \<Rightarrow> string option \<Rightarrow> message_response" where
  "mapMessageToResponse msg sender_name sender_avatar =
     \<lparr>mr_id = m_id msg,
      mr_tenant_id = m_tenant_id msg,
      mr_conversation_id = nonempty (m_conversa_id msg),
      mr_sender_type = mapSenderTypeToEn (m_remetente_tipo msg),
      mr_sender_id = js_or (m_remetente_id msg) None,
      mr_content = nonempty (m_conteudo msg),
      mr_type = (if truthy (m_tipo msg) then coalesce (m_tipo msg) ''text'' else ''text''),
      mr_metadata = m_metadata msg,
      mr_read = m_lida msg,
      mr_reply_to_id = js_or (m_resposta_para msg) None,
      mr_created_at = m_created_at msg,
      mr_sender =
        (case sender_name of
           None \<Rightarrow> None
         | Some n \<Rightarrow>
             if n = [] then None
             else Some \<lparr>si_id = js_or (m_remetente_id msg) None, si_name = n,
                        si_avatar = sender_avatar\<rparr>)\<rparr>"

definition is_customer_tipo :: "string \<Rightarrow> bool" where
  "is_customer_tipo t = (t = ''cliente'' \<or> t = ''customer'')"

definition is_agent_tipo :: "string \<Rightarrow> bool" where
  "is_agent_tipo t = (t = ''agente'' \<or> t = ''agent'')"

definition remetente_lookup :: "(uuid \<rightharpoonup> 'r) \<Rightarrow> mensagem_row \<Rightarrow> 'r option" where
  "remetente_lookup table m = (case m_remetente_id m of None \<Rightarrow> None | Some k \<Rightarrow> table k)"

text \<open>The two \<open>CASE\<close> columns of the list query. Its joins are restricted to the sender
  type, which the \<open>CASE\<close> tests again.\<close>

definition list_sender_name :: "database \<Rightarrow> mensagem_row \<Rightarrow> string option" where
  "list_sender_name d m =
     (if is_customer_tipo (m_remetente_tipo m)
      then (case remetente_lookup (contatos d) m of None \<Rightarrow> None | Some ct \<Rightarrow> ct_nome ct)
      else if is_agent_tipo (m_remetente_tipo m)
      then (case remetente_lookup (agents d) m of None \<Rightarrow> None | Some a \<Rightarrow> a_nome a)
      else Some ''Sistema'')"

definition list_sender_avatar :: "database \<Rightarrow> mensagem_row \<Rightarrow> string option" where
  "list_sender_avatar d m =
     (if is_customer_tipo (m_remetente_tipo m)
      then (case remetente_lookup (contatos d) m of None \<Rightarrow> None | Some ct \<Rightarrow> ct_avatar ct)
      else if is_agent_tipo (m_remetente_tipo m)
      then Some (coalesce
                   (case remetente_lookup (agents d) m of None \<Rightarrow> None | Some a \<Rightarrow> a_nome a)
                   ''AG'')
      else None)"

record list_params =
  lp_userId :: uuid
  lp_conversationId :: uuid
  lp_page :: int
  lp_perPage :: int
  lp_before :: "timestamp option"
  lp_after :: "timestamp option"

text \<open>The \<open>WHERE\<close> clause that \<open>listByConversation\<close> assembles.\<close>

definition list_where ::
  "uuid \<Rightarrow> uuid \<Rightarrow> timestamp option \<Rightarrow> timestamp option \<Rightarrow> mensagem_row \<Rightarrow> bool" where
  "list_where conversationId tenant before after m =
     (m_conversa_id m = conversationId \<and> m_tenant_id m = tenant
      \<and> (case before of None \<Rightarrow> True | Some b \<Rightarrow> m_created_at m < b)
      \<and> (case after of None \<Rightarrow> True | Some a \<Rightarrow> m_created_at m > a))"

text \<open>\<open>ORDER BY m.created_at ASC LIMIT perPage OFFSET (page - 1) * perPage\<close>; PostgreSQL
  rejects a negative \<open>OFFSET\<close> (2201X) or \<open>LIMIT\<close> (2201W). The controller passes a page
  of at least 1 and a page size from 1 to 100; numbers beyond the range of \<open>bigint\<close> are
  outside the model.\<close>

definition listByConversation ::
  "database \<Rightarrow> list_params \<Rightarrow> app_error + (message_response list \<times> nat)" where
  "listByConversation d params =
     (case getTenantId d (lp_userId params) of
        None \<Rightarrow> Inr ([], 0)
      | Some tenant \<Rightarrow>
          if tenant = [] then Inr ([], 0)
          else
            (case conversas d of
               None \<Rightarrow> Inl (DbError ''42P01'')
             | Some cs \<Rightarrow>
                 if conv_check cs (lp_conversationId params) tenant = []
                 then Inl (NotFoundError ''Conversation'')
                 else
                   (case mensagens d of
                      None \<Rightarrow> Inr ([], 0)
                    | Some ms \<Rightarrow>
                        (let selected = filter (list_where (lp_conversationId params) tenant
                                                  (lp_before params) (lp_after params)) ms;
                             offset = (lp_page params - 1) * lp_perPage params
                         in if offset < 0 then Inl (DbError ''2201X'')
                            else if lp_perPage params < 0 then Inl (DbError ''2201W'')
                            else Inr (map (\<lambda>m. mapMessageToResponse m (list_sender_name d m)
                                                  (list_sender_avatar d m))
                                        (take (nat (lp_perPage params))
                                           (drop (nat offset) (sort_key m_created_at selected))),
                                      length selected)))))"

record create_message_dto =
  cm_conversationId :: uuid
  cm_senderType :: string
  cm_senderId :: "uuid option"
  cm_content :: string
  cm_type :: "string option"
  cm_metadata :: "json option"
  cm_replyToId :: "uuid option"

text \<open>The row that \<open>create\<close> inserts; \<open>tipo_col\<close> is the sender type as the target table
  stores it.\<close>

definition create_row :: "database \<Rightarrow> uuid \<Rightarrow> uuid \<Rightarrow> string \<Rightarrow> create_message_dto \<Rightarrow> mensagem_row" where
  "create_row d nid tenant tipo_col data =
     \<lparr>m_id = nid,
      m_tenant_id = tenant,
      m_conversa_id = cm_conversationId data,
      m_remetente_tipo = tipo_col,
      m_remetente_id = js_or (cm_senderId data) None,
      m_conteudo = cm_content data,
      m_tipo = Some (if truthy (cm_type data) then coalesce (cm_type data) ''text'' else ''text''),
      m_tipo_mensagem = None,
      m_metadata = cm_metadata data,
      m_lida = (if cm_senderType data = ''customer'' then False else True),
      m_lida_em = None,
      m_resposta_para = js_or (cm_replyToId data) None,
      m_created_at = now d\<rparr>"

text \<open>\<open>INSERT INTO mensagens ... RETURNING *\<close> and the same on \<open>messages\<close>: the error code when
  the table is missing.\<close>

definition insert_mensagens :: "database \<Rightarrow> mensagem_row \<Rightarrow> string + database" where
  "insert_mensagens d row =
     (case mensagens d of
        None \<Rightarrow> Inl ''42P01''
      | Some ms \<Rightarrow> Inr (d\<lparr>mensagens := Some (ms @ [row])\<rparr>))"

definition insert_messages :: "database \<Rightarrow> mensagem_row \<Rightarrow> string + database" where
  "insert_messages d row =
     (case messages d of
        None \<Rightarrow> Inl ''42P01''
      | Some ms \<Rightarrow> Inr (d\<lparr>messages := Some (ms @ [row])\<rparr>))"

definition create ::
  "world \<Rightarrow> uuid \<Rightarrow> uuid \<Rightarrow> create_message_dto \<Rightarrow> (app_error + message_response) \<times> world" where
  "create w nid user data =
     (case getTenantId (db w) user of
        None \<Rightarrow> (Inl (NotFoundError ''User''), w)
      | Some tenant \<Rightarrow>
          if tenant = [] then (Inl (NotFoundError ''User''), w)
          else
            (case conversas (db w) of
               None \<Rightarrow> (Inl (DbError ''42P01''), w)
             | Some cs \<Rightarrow>
                 if conv_check cs (cm_conversationId data) tenant = []
                 then (Inl (NotFoundError ''Conversation''), w)
                 else
                   (case insert_mensagens (db w)
                           (create_row (db w) nid tenant (mapSenderTypeToPt (cm_senderType data)) data) of
                      Inr d1 \<Rightarrow>
                        (let d2 = updateLastMessage d1 (cm_conversationId data) (take 100 (cm_content data));
                             messageResponse =
                               mapMessageToResponse
                                 (create_row (db w) nid tenant (mapSenderTypeToPt (cm_senderType data)) data)
                                 None None
                         in (Inr messageResponse,
                             emitNewMessage (w\<lparr>db := d2\<rparr>) tenant (cm_conversationId data)
                               messageResponse))
                    | Inl code \<Rightarrow>
                        if code = ''42P01'' \<or> code = ''42703''
                        then
                          (case insert_messages (db w)
                                  (create_row (db w) nid tenant (cm_senderType data) data) of
                             Inr d1 \<Rightarrow>
                               (Inr (mapMessageToResponse
                                       (create_row (db w) nid tenant (cm_senderType data) data)
                                       None None),
                                w\<lparr>db := d1\<rparr>)
                           | Inl code' \<Rightarrow> (Inl (DbError code'), w))
                        else (Inl (DbError code), w))))"

text \<open>The two \<open>UPDATE mensagens SET lida = true ... RETURNING id\<close> statements of
  \<open>markAsRead\<close>: the rows each one selects.\<close>

definition named_unread :: "uuid \<Rightarrow> uuid \<Rightarrow> uuid list \<Rightarrow> mensagem_row \<Rightarrow> bool" where
  "named_unread conversationId tenant messageIds m =
     (m_conversa_id m = conversationId \<and> m_tenant_id m = tenant
      \<and> m_id m \<in> set messageIds \<and> \<not> m_lida m)"

definition unread_customer :: "uuid \<Rightarrow> uuid \<Rightarrow> mensagem_row \<Rightarrow> bool" where
  "unread_customer conversationId tenant m =
     (m_conversa_id m = conversationId \<and> m_tenant_id m = tenant
      \<and> \<not> m_lida m \<and> customer_authored m)"

definition set_lida :: "(mensagem_row \<Rightarrow> bool) \<Rightarrow> mensagem_row list \<Rightarrow> mensagem_row list" where
  "set_lida sel ms = map (\<lambda>m. if sel m then m\<lparr>m_lida := True\<rparr> else m) ms"

definition markAsRead ::
  "world \<Rightarrow> uuid \<Rightarrow> uuid \<Rightarrow> uuid list option \<Rightarrow> (app_error + nat) \<times> world" where
  "markAsRead w user conversationId messageIds =
     (case getTenantId (db w) user of
        None \<Rightarrow> (Inl (NotFoundError ''User''), w)
      | Some tenant \<Rightarrow>
          if tenant = [] then (Inl (NotFoundError ''User''), w)
          else
            (case mensagens (db w) of
               None \<Rightarrow> (Inr 0, w)
             | Some ms \<Rightarrow>
                 (let sel = (case messageIds of
                               None \<Rightarrow> unread_customer conversationId tenant
                             | Some ids \<Rightarrow>
                                 if length ids > 0 then named_unread conversationId tenant ids
                                 else unread_customer conversationId tenant)
                  in (Inr (length (filter sel ms)),
                      w\<lparr>db := (db w)\<lparr>mensagens := Some (set_lida sel ms)\<rparr>\<rparr>))))"

text \<open>\<open>getById\<close> of the message store. Its joins are on \<open>remetente_id\<close> alone.\<close>

definition message_getById :: "database \<Rightarrow> uuid \<Rightarrow> uuid \<Rightarrow> app_error + message_response" where
  "message_getById d ident user =
     (case getTenantId d user of
        None \<Rightarrow> Inl (NotFoundError ''Message'')
      | Some tenant \<Rightarrow>
          if tenant = [] then Inl (NotFoundError ''Message'')
          else
            (case mensagens d of
               None \<Rightarrow> Inl (NotFoundError ''Message'')
             | Some ms \<Rightarrow>
                 (case filter (\<lambda>m. m_id m = ident \<and> m_tenant_id m = tenant) ms of
                    [] \<Rightarrow> Inl (NotFoundError ''Message'')
                  | m # _ \<Rightarrow> Inr (mapMessageToResponse m (list_sender_name d m) None))))"

text \<open>\<open>createByTenantId\<close>, for webhooks: the tenant is an argument, the data has no
  \<open>replyToId\<close>, and every error is caught and answered with \<open>null\<close>. The insert is followed
  by \<open>UPDATE conversas SET ultima_mensagem = $1, ultima_atividade = NOW() WHERE id = $2\<close>.\<close>

record tenant_message_data =
  td_senderType :: string
  td_senderId :: "uuid option"
  td_content :: string
  td_type :: "string option"
  td_metadata :: "json option"

definition tenant_row :: "database \<Rightarrow> uuid \<Rightarrow> uuid \<Rightarrow> uuid \<Rightarrow> tenant_message_data \<Rightarrow> mensagem_row" where
  "tenant_row d nid tenant conversation data =
     \<lparr>m_id = nid,
      m_tenant_id = tenant,
      m_conversa_id = conversation,
      m_remetente_tipo = mapSenderTypeToPt (td_senderType data),
      m_remetente_id = js_or (td_senderId data) None,
      m_conteudo = td_content data,
      m_tipo = Some (if truthy (td_type data) then coalesce (td_type data) ''text'' else ''text''),
      m_tipo_mensagem = None,
      m_metadata = td_metadata data,
      m_lida = (if td_senderType data = ''customer'' then False else True),
      m_lida_em = None,
      m_resposta_para = None,
      m_created_at = now d\<rparr>"

definition touch_conversa :: "conversa_row list \<Rightarrow> timestamp \<Rightarrow> uuid \<Rightarrow> string \<Rightarrow> conversa_row list" where
  "touch_conversa cs t conversation preview =
     map (\<lambda>c. if c_id c = conversation
               then c\<lparr>c_ultima_mensagem := Some preview, c_ultima_atividade := t\<rparr>
               else c) cs"

definition createByTenantId ::
  "world \<Rightarrow> uuid \<Rightarrow> uuid \<Rightarrow> uuid \<Rightarrow> tenant_message_data \<Rightarrow> message_response option \<times> world" where
  "createByTenantId w nid tenant conversation data =
     (case insert_mensagens (db w) (tenant_row (db w) nid tenant conversation data) of
        Inl code \<Rightarrow> (None, w)
      | Inr d1 \<Rightarrow>
          (case conversas d1 of
             None \<Rightarrow> (None, w\<lparr>db := d1\<rparr>)
           | Some cs \<Rightarrow>
               (let d2 = d1\<lparr>conversas :=
                            Some (touch_conversa cs (now d1) conversation
                                    (take 100 (td_content data)))\<rparr>;
                    messageResponse =
                      mapMessageToResponse (tenant_row (db w) nid tenant conversation data)
                        None None
                in (Some messageResponse,
                    emitNewMessage (w\<lparr>db := d2\<rparr>) tenant conversation messageResponse))))"

definition getUnreadCount :: "database \<Rightarrow> uuid \<Rightarrow> uuid \<Rightarrow> nat" where
  "getUnreadCount d user conversation =
     (case getTenantId d user of
        None \<Rightarrow> 0
      | Some tenant \<Rightarrow>
          if tenant = [] then 0
          else
            (case mensagens d of
               None \<Rightarrow> 0
             | Some ms \<Rightarrow> length (filter (unread_customer conversation tenant) ms)))"

section \<open>Socket handlers (\<open>config/socket.ts\<close>)\<close>

text \<open>\<open>authenticateSocket\<close>: \<open>token\<close> is the value of
  \<open>socket.handshake.auth.token || socket.handshake.headers.authorization?.replace('Bearer ', '')\<close>,
  and \<open>jwt_verify\<close> stands for \<open>jwt.verify\<close> with the configured secret: the \<open>userId\<close> of
  the token, or nothing when it throws.\<close>

definition authenticateSocket ::
  "(string \<Rightarrow> uuid option) \<Rightarrow> database \<Rightarrow> string option \<Rightarrow> string + (uuid \<times> uuid)" where
  "authenticateSocket jwt_verify d token =
     (case token of
        None \<Rightarrow> Inl ''Authentication required''
      | Some t \<Rightarrow>
          if t = [] then Inl ''Authentication required''
          else
            (case jwt_verify t of
               None \<Rightarrow> Inl ''Invalid token''
             | Some user \<Rightarrow>
                 (case getTenantId d user of
                    None \<Rightarrow> Inl ''User not found''
                  | Some tenant \<Rightarrow>
                      if tenant = [] then Inl ''User not found'' else Inr (user, tenant))))"

text \<open>The connection handler: the socket joins its tenant room and the other members of
  that room are told \<open>user:online\<close>.\<close>

definition on_connection :: "world \<Rightarrow> string \<Rightarrow> uuid \<Rightarrow> uuid \<Rightarrow> world" where
  "on_connection w sid user tenant =
     (case io w of
        None \<Rightarrow> w
      | Some srv \<Rightarrow>
          w\<lparr>io := Some (socket_to_emit sid (tenant_room tenant) (''user:online'', UserPayload user)
                        (srv(sid \<mapsto> \<lparr>userId = user, tenantId = tenant,
                                     rooms = {tenant_room tenant}, inbox = []\<rparr>)))\<rparr>)"

definition connect ::
  "(string \<Rightarrow> uuid option) \<Rightarrow> world \<Rightarrow> string \<Rightarrow> string option \<Rightarrow> string option \<times> world" where
  "connect jwt_verify w sid token =
     (case authenticateSocket jwt_verify (db w) token of
        Inl err \<Rightarrow> (Some err, w)
      | Inr (user, tenant) \<Rightarrow> (None, on_connection w sid user tenant))"

text \<open>\<open>conversation:join\<close>: the ownership query runs against the database as it is when
  the event is handled.\<close>

definition on_conversation_join :: "world \<Rightarrow> string \<Rightarrow> uuid \<Rightarrow> world" where
  "on_conversation_join w sid conversationId =
     (case io w of
        None \<Rightarrow> w
      | Some srv \<Rightarrow>
          (case srv sid of
             None \<Rightarrow> w
           | Some s \<Rightarrow>
               (case conversas (db w) of
                  None \<Rightarrow>
                    w\<lparr>io := Some (socket_emit sid
                                   (''error'', ErrorPayload ''Failed to join conversation'') srv)\<rparr>
                | Some cs \<Rightarrow>
                    if length (conv_check cs conversationId (tenantId s)) > 0
                    then w\<lparr>io := Some (socket_join sid (conversation_room conversationId) srv)\<rparr>
                    else w)))"

definition on_conversation_leave :: "world \<Rightarrow> string \<Rightarrow> uuid \<Rightarrow> world" where
  "on_conversation_leave w sid conversationId =
     (case io w of
        None \<Rightarrow> w
      | Some srv \<Rightarrow> w\<lparr>io := Some (socket_leave sid (conversation_room conversationId) srv)\<rparr>)"

text \<open>\<open>typing:start\<close> looks the user's name up (\<open>rows[0]?.name\<close> or else a default name whose
  fourth letter is the code unit E1) and sends to the room named by the client;
  \<open>typing:stop\<close> sends without a name.\<close>

definition default_user_name :: string where
  "default_user_name = ''Usu'' @ [CHR 0xE1] @ ''rio''"

text \<open>\<open>SELECT name FROM users WHERE id = $1\<close>, then \<open>rows[0]?.name\<close> or the default.\<close>

definition typing_user_name :: "database \<Rightarrow> uuid \<Rightarrow> string" where
  "typing_user_name d user =
     (let name = (case users d user of None \<Rightarrow> None | Some u \<Rightarrow> u_name u)
      in if truthy name then coalesce name default_user_name else default_user_name)"

definition on_typing_start :: "world \<Rightarrow> string \<Rightarrow> uuid \<Rightarrow> world" where
  "on_typing_start w sid conversationId =
     (case io w of
        None \<Rightarrow> w
      | Some srv \<Rightarrow>
          (case srv sid of
             None \<Rightarrow> w
           | Some s \<Rightarrow>
               w\<lparr>io := Some (socket_to_emit sid (conversation_room conversationId)
                              (''typing:start'',
                               TypingStartPayload conversationId (userId s)
                                 (typing_user_name (db w) (userId s))) srv)\<rparr>))"

definition on_typing_stop :: "world \<Rightarrow> string \<Rightarrow> uuid \<Rightarrow> world" where
  "on_typing_stop w sid conversationId =
     (case io w of
        None \<Rightarrow> w
      | Some srv \<Rightarrow>
          (case srv sid of
             None \<Rightarrow> w
           | Some s \<Rightarrow>
               w\<lparr>io := Some (socket_to_emit sid (conversation_room conversationId)
                              (''typing:stop'', TypingStopPayload conversationId (userId s))
                              srv)\<rparr>))"

text \<open>\<open>message:read\<close> runs its own statements: \<open>UPDATE mensagens SET lida = true, lida_em =
  NOW()\<close> on the named rows of the conversation and tenant, or, with no ids, on the unread
  customer rows; then it tells the other members of the conversation room.\<close>

definition named_rows :: "uuid \<Rightarrow> uuid \<Rightarrow> uuid list \<Rightarrow> mensagem_row \<Rightarrow> bool" where
  "named_rows conversationId tenant messageIds m =
     (m_conversa_id m = conversationId \<and> m_tenant_id m = tenant \<and> m_id m \<in> set messageIds)"

definition set_lida_em ::
  "(mensagem_row \<Rightarrow> bool) \<Rightarrow> timestamp \<Rightarrow> mensagem_row list \<Rightarrow> mensagem_row list" where
  "set_lida_em sel t ms = map (\<lambda>m. if sel m then m\<lparr>m_lida := True, m_lida_em := Some t\<rparr> else m) ms"

definition on_message_read :: "world \<Rightarrow> string \<Rightarrow> uuid \<Rightarrow> uuid list option \<Rightarrow> world" where
  "on_message_read w sid conversationId messageIds =
     (case io w of
        None \<Rightarrow> w
      | Some srv \<Rightarrow>
          (case srv sid of
             None \<Rightarrow> w
           | Some s \<Rightarrow>
               (case mensagens (db w) of
                  None \<Rightarrow>
                    w\<lparr>io := Some (socket_emit sid
                                   (''error'', ErrorPayload ''Failed to mark messages as read'') srv)\<rparr>
                | Some ms \<Rightarrow>
                    (let sel = (case messageIds of
                                  None \<Rightarrow> unread_customer conversationId (tenantId s)
                                | Some ids \<Rightarrow>
                                    if length ids > 0
                                    then named_rows conversationId (tenantId s) ids
                                    else unread_customer conversationId (tenantId s))
                     in \<lparr>db = (db w)\<lparr>mensagens := Some (set_lida_em sel (now (db w)) ms)\<rparr>,
                         io = Some (socket_to_emit sid (conversation_room conversationId)
                                      (''message:read'',
                                       ReadPayload conversationId
                                         (case messageIds of None \<Rightarrow> [] | Some ids \<Rightarrow> ids))
                                      srv)\<rparr>))))"

definition on_disconnect :: "world \<Rightarrow> string \<Rightarrow> world" where
  "on_disconnect w sid =
     (case io w of
        None \<Rightarrow> w
      | Some srv \<Rightarrow>
          (case srv sid of
             None \<Rightarrow> w
           | Some s \<Rightarrow>
               w\<lparr>io := Some ((socket_to_emit sid (tenant_room (tenantId s))
                                (''user:offline'', UserPayload (userId s)) srv)(sid := None))\<rparr>))"

section \<open>The webhook router (\<open>webhooks.routes.ts\<close>)\<close>

subsection \<open>Signature middleware\<close>

text \<open>
  \<open>validateWebhookSignature\<close>. \<open>hmac_hex key text\<close> stands for Node's
  \<open>crypto.createHmac('sha256', key).update(text).digest('hex')\<close>, and \<open>body_json\<close> for
  \<open>JSON.stringify(req.body)\<close>, the parsed body serialised again. \<open>crypto.timingSafeEqual\<close>
  throws a \<open>RangeError\<close> when its two buffers differ in length. The middleware either calls
  \<open>next()\<close>, calls \<open>next(err)\<close>, or throws.
\<close>

record webhook_headers =
  x_webhook_signature :: "string option"
  x_webhook_secret :: "string option"

datatype middleware_result = Next | NextError app_error | Throws app_error

definition startsWith :: "string \<Rightarrow> string \<Rightarrow> bool" where
  "startsWith s p = (take (length p) s = p)"

definition timingSafeEqual :: "string \<Rightarrow> string \<Rightarrow> app_error + bool" where
  "timingSafeEqual a b = (if length a \<noteq> length b then Inl RangeError else Inr (a = b))"

definition validateWebhookSignature ::
  "(string \<Rightarrow> string \<Rightarrow> string) \<Rightarrow> string option \<Rightarrow> webhook_headers \<Rightarrow> json \<Rightarrow> middleware_result" where
  "validateWebhookSignature hmac_hex secret headers body_json =
     (let signature = js_or (x_webhook_signature headers) (x_webhook_secret headers)
      in case secret of
           None \<Rightarrow> Next
         | Some sec \<Rightarrow>
             if sec = [] then Next
             else
               (case signature of
                  None \<Rightarrow> NextError (UnauthorizedError ''Missing webhook signature'')
                | Some sig \<Rightarrow>
                    if sig = [] then NextError (UnauthorizedError ''Missing webhook signature'')
                    else if sig = sec then Next
                    else if startsWith sig ''sha256=''
                    then
                      (case timingSafeEqual sig (''sha256='' @ hmac_hex sec body_json) of
                         Inl err \<Rightarrow> Throws err
                       | Inr same \<Rightarrow>
                           if same then Next
                           else NextError (UnauthorizedError ''Invalid webhook signature''))
                    else NextError (UnauthorizedError ''Invalid webhook signature'')))"

text \<open>The public routes of the router, and whether \<open>router.post\<close> registers
  \<open>validateWebhookSignature\<close> in front of the handler.\<close>

datatype webhook_route =
    N8nMessage
  | ChannelMessage string uuid
  | N8nEvent
  | N8nProductUpdate

fun validates_signature :: "webhook_route \<Rightarrow> bool" where
  "validates_signature N8nMessage = True"
| "validates_signature (ChannelMessage channel_type ident) = False"
| "validates_signature N8nEvent = True"
| "validates_signature N8nProductUpdate = True"

subsection \<open>\<open>POST /channels/:type/:id\<close>\<close>

text \<open>
  The body of the request: \<open>from\<close> may be absent, \<open>message\<close> is an object whose \<open>text\<close> and
  \<open>type\<close> may be absent. \<open>cb_message_json\<close> is \<open>JSON.stringify(message)\<close> and
  \<open>cb_metadata_json\<close> is \<open>JSON.stringify({...metadata, timestamp, from})\<close>.
\<close>

record webhook_from =
  from_id :: "string option"
  from_phone :: "string option"
  from_name :: "string option"

record channel_body =
  cb_from :: "webhook_from option"
  cb_message_text :: "string option"
  cb_message_type :: "string option"
  cb_message_json :: json
  cb_metadata_json :: json

datatype http_reply =
    Received uuid timestamp
  | ErrorReply nat string string

text \<open>\<open>from?.id || from?.phone\<close> and \<open>from?.name || 'Cliente'\<close>.\<close>

definition customer_key :: "channel_body \<Rightarrow> string option" where
  "customer_key body =
     (case cb_from body of None \<Rightarrow> None | Some f \<Rightarrow> js_or (from_id f) (from_phone f))"

definition customer_display_name :: "channel_body \<Rightarrow> string" where
  "customer_display_name body =
     (case cb_from body of
        None \<Rightarrow> ''Cliente''
      | Some f \<Rightarrow> if truthy (from_name f) then coalesce (from_name f) ''Cliente'' else ''Cliente'')"

text \<open>\<open>SELECT id FROM conversas WHERE cliente_id = $1 AND canal = $2 AND tenant_id = $3\<close>,
  then \<open>conversation.rows[0]?.id\<close>.\<close>

definition find_conversation :: "conversa_row list \<Rightarrow> string option \<Rightarrow> string \<Rightarrow> uuid \<Rightarrow> uuid option" where
  "find_conversation cs key channel_type tenant =
     (case filter (\<lambda>c. sql_eq (c_cliente_id c) key \<and> c_canal c = channel_type
                         \<and> c_tenant_id c = tenant) cs of
        [] \<Rightarrow> None
      | c # _ \<Rightarrow> Some (c_id c))"

text \<open>\<open>INSERT INTO conversas (tenant_id, canal, cliente_id, cliente_nome, status) VALUES
  ($1, $2, $3, $4, 'aberta') RETURNING id\<close>.\<close>

definition new_conversa :: "database \<Rightarrow> uuid \<Rightarrow> uuid \<Rightarrow> string \<Rightarrow> channel_body \<Rightarrow> conversa_row" where
  "new_conversa d nid tenant channel_type body =
     \<lparr>c_id = nid,
      c_tenant_id = tenant,
      c_company_id = None,
      c_cliente_id = customer_key body,
      c_cliente_nome = Some (customer_display_name body),
      c_agente_id = None,
      c_canal = channel_type,
      c_status = ''aberta'',
      c_ultima_mensagem = None,
      c_ultima_atividade = now d,
      c_metadata = None,
      c_created_at = now d,
      c_updated_at = now d\<rparr>"

text \<open>\<open>INSERT INTO mensagens (conversa_id, tenant_id, remetente_tipo, conteudo, tipo_mensagem,
  lida, metadata) VALUES ($1, $2, 'customer', $3, $4, false, $5)\<close>.\<close>

definition webhook_row :: "database \<Rightarrow> uuid \<Rightarrow> uuid \<Rightarrow> uuid \<Rightarrow> channel_body \<Rightarrow> mensagem_row" where
  "webhook_row d nid tenant conversation body =
     \<lparr>m_id = nid,
      m_tenant_id = tenant,
      m_conversa_id = conversation,
      m_remetente_tipo = ''customer'',
      m_remetente_id = None,
      m_conteudo = (if truthy (cb_message_text body)
                    then coalesce (cb_message_text body) (cb_message_json body)
                    else cb_message_json body),
      m_tipo = Some ''text'',
      m_tipo_mensagem = Some (if truthy (cb_message_type body)
                              then coalesce (cb_message_type body) ''text'' else ''text''),
      m_metadata = Some (cb_metadata_json body),
      m_lida = False,
      m_lida_em = None,
      m_resposta_para = None,
      m_created_at = now d\<rparr>"

text \<open>The handler. \<open>conv_nid\<close> and \<open>msg_nid\<close> are the ids the database draws for the
  conversation and the message row, should the handler insert them. An error goes to
  \<open>next(error)\<close>; what was written before it stays written.\<close>

definition channel_message ::
  "world \<Rightarrow> uuid \<Rightarrow> uuid \<Rightarrow> string \<Rightarrow> uuid \<Rightarrow> channel_body \<Rightarrow> (app_error + http_reply) \<times> world" where
  "channel_message w conv_nid msg_nid channel_type ident body =
     (case canais (db w) ident of
        None \<Rightarrow> (Inr (ErrorReply 404 ''Channel not found'' ''CHANNEL_NOT_FOUND''), w)
      | Some ch \<Rightarrow>
          if ch_tipo ch \<noteq> channel_type
          then (Inr (ErrorReply 404 ''Channel not found'' ''CHANNEL_NOT_FOUND''), w)
          else
            (case conversas (db w) of
               None \<Rightarrow> (Inl (DbError ''42P01''), w)
             | Some cs \<Rightarrow>
                 (let tenant = ch_tenant_id ch;
                      found = find_conversation cs (customer_key body) channel_type tenant;
                      d1 = (if truthy found then db w
                            else (db w)\<lparr>conversas :=
                                    Some (cs @ [new_conversa (db w) conv_nid tenant channel_type body])\<rparr>);
                      conversation = (if truthy found then coalesce found conv_nid else conv_nid)
                  in case insert_mensagens d1 (webhook_row d1 msg_nid tenant conversation body) of
                       Inl code \<Rightarrow> (Inl (DbError code), w\<lparr>db := d1\<rparr>)
                     | Inr d2 \<Rightarrow> (Inr (Received conversation (now d2)), w\<lparr>db := d2\<rparr>))))"

text \<open>Express runs the middleware registered for a route before its handler; for this
  route none is registered.\<close>

definition post_channel_message ::
  "(string \<Rightarrow> string \<Rightarrow> string) \<Rightarrow> string option \<Rightarrow> webhook_headers \<Rightarrow> json \<Rightarrow>
   world \<Rightarrow> uuid \<Rightarrow> uuid \<Rightarrow> string \<Rightarrow> uuid \<Rightarrow> channel_body \<Rightarrow> (app_error + http_reply) \<times> world" where
  "post_channel_message hmac_hex secret headers body_json w conv_nid msg_nid channel_type ident body =
     (if validates_signature (ChannelMessage channel_type ident)
      then
        (case validateWebhookSignature hmac_hex secret headers body_json of
           Next \<Rightarrow> channel_message w conv_nid msg_nid channel_type ident body
         | NextError err \<Rightarrow> (Inl err, w)
         | Throws err \<Rightarrow> (Inl err, w))
      else channel_message w conv_nid msg_nid channel_type ident body)"

subsection \<open>The handler at its suspension points\<close>

text \<open>
  The handler is an \<open>async\<close> function: between two of its \<open>await db.query\<close> the event loop
  may run other handlers. \<open>step\<close> runs one request from one suspension point to the next,
  one statement at a time; \<open>run\<close> runs several requests in the order of a schedule, which
  names the request to resume next.
\<close>

datatype handler_pc =
    AtChannelLookup
  | AtFindConversation uuid
  | AtCreateConversation uuid
  | AtInsertMessage uuid uuid
  | Finished "app_error + http_reply"

record channel_request =
  rq_conv_nid :: uuid
  rq_msg_nid :: uuid
  rq_type :: string
  rq_ident :: uuid
  rq_body :: channel_body

fun step :: "world \<Rightarrow> channel_request \<Rightarrow> handler_pc \<Rightarrow> handler_pc \<times> world" where
  "step w rq AtChannelLookup =
     (case canais (db w) (rq_ident rq) of
        None \<Rightarrow> (Finished (Inr (ErrorReply 404 ''Channel not found'' ''CHANNEL_NOT_FOUND'')), w)
      | Some ch \<Rightarrow>
          if ch_tipo ch \<noteq> rq_type rq
          then (Finished (Inr (ErrorReply 404 ''Channel not found'' ''CHANNEL_NOT_FOUND'')), w)
          else (AtFindConversation (ch_tenant_id ch), w))"
| "step w rq (AtFindConversation tenant) =
     (case conversas (db w) of
        None \<Rightarrow> (Finished (Inl (DbError ''42P01'')), w)
      | Some cs \<Rightarrow>
          (let found = find_conversation cs (customer_key (rq_body rq)) (rq_type rq) tenant
           in if truthy found then (AtInsertMessage tenant (coalesce found (rq_conv_nid rq)), w)
              else (AtCreateConversation tenant, w)))"
| "step w rq (AtCreateConversation tenant) =
     (case conversas (db w) of
        None \<Rightarrow> (Finished (Inl (DbError ''42P01'')), w)
      | Some cs \<Rightarrow>
          (AtInsertMessage tenant (rq_conv_nid rq),
           w\<lparr>db := (db w)\<lparr>conversas :=
                   Some (cs @ [new_conversa (db w) (rq_conv_nid rq) tenant (rq_type rq)
                                 (rq_body rq)])\<rparr>\<rparr>))"
| "step w rq (AtInsertMessage tenant conversation) =
     (case insert_mensagens (db w)
             (webhook_row (db w) (rq_msg_nid rq) tenant conversation (rq_body rq)) of
        Inl code \<Rightarrow> (Finished (Inl (DbError code)), w)
      | Inr d2 \<Rightarrow> (Finished (Inr (Received conversation (now d2))), w\<lparr>db := d2\<rparr>))"
| "step w rq (Finished r) = (Finished r, w)"

fun run ::
  "world \<Rightarrow> (channel_request \<times> handler_pc) list \<Rightarrow> nat list \<Rightarrow>
   world \<times> (channel_request \<times> handler_pc) list" where
  "run w ps [] = (w, ps)"
| "run w ps (i # sched) =
     (if i < length ps
      then (case step w (fst (ps ! i)) (snd (ps ! i)) of
              (pc', w') \<Rightarrow> run w' (ps[i := (fst (ps ! i), pc')]) sched)
      else run w ps sched)"

section \<open>Observations used to state the properties\<close>

definition rows_of :: "'a list option \<Rightarrow> 'a list" where
  "rows_of t = (case t of None \<Rightarrow> [] | Some xs \<Rightarrow> xs)"

text \<open>The message rows an operation has appended, to either message table.\<close>

definition appended_messages :: "database \<Rightarrow> database \<Rightarrow> mensagem_row list" where
  "appended_messages d d' =
     drop (length (rows_of (mensagens d))) (rows_of (mensagens d'))
     @ drop (length (rows_of (messages d))) (rows_of (messages d'))"

text \<open>The conversation exists and belongs to the tenant of the connection.\<close>

definition owns_conversation :: "world \<Rightarrow> string \<Rightarrow> uuid \<Rightarrow> bool" where
  "owns_conversation w sid conversationId =
     (case io w of
        None \<Rightarrow> False
      | Some srv \<Rightarrow>
          (case srv sid of
             None \<Rightarrow> False
           | Some s \<Rightarrow>
               list_ex (\<lambda>c. c_id c = conversationId \<and> c_tenant_id c = tenantId s)
                 (rows_of (conversas (db w)))))"

text \<open>The rows of two versions of a table that went from unread to read.\<close>

definition transitioned :: "mensagem_row list \<Rightarrow> mensagem_row list \<Rightarrow> nat" where
  "transitioned ms ms' = length (filter (\<lambda>(a, b). \<not> m_lida a \<and> m_lida b) (zip ms ms'))"

text \<open>The ids a mark-read call names; none when the list is omitted.\<close>

definition named_ids :: "uuid list option \<Rightarrow> uuid set" where
  "named_ids messageIds = (case messageIds of None \<Rightarrow> {} | Some ids \<Rightarrow> set ids)"

section \<open>A two-tenant scenario\<close>

text \<open>
  Tenant \<open>tA\<close> has the user \<open>uA\<close>, the WhatsApp channel \<open>ch1\<close> and the conversation \<open>cA\<close>
  with an unread customer message \<open>m1\<close> and an unread agent message \<open>m2\<close>; tenant \<open>tB\<close> has
  the user \<open>uB\<close> and the conversation \<open>cB\<close> with the unread customer message \<open>m3\<close>. The
  connection \<open>sA\<close> of \<open>uA\<close> views \<open>cA\<close>, the connection \<open>sB\<close> of \<open>uB\<close> views \<open>cB\<close>, and
  a second connection \<open>sA2\<close> of \<open>uA\<close> is in its tenant room only.
\<close>

definition demo_conversa :: "uuid \<Rightarrow> uuid \<Rightarrow> string \<Rightarrow> conversa_row" where
  "demo_conversa ident tenant client =
     \<lparr>c_id = ident, c_tenant_id = tenant, c_company_id = None, c_cliente_id = Some client,
      c_cliente_nome = None, c_agente_id = None, c_canal = ''whatsapp'', c_status = ''aberta'',
      c_ultima_mensagem = None, c_ultima_atividade = 1, c_metadata = None,
      c_created_at = 1, c_updated_at = 1\<rparr>"

definition demo_mensagem :: "uuid \<Rightarrow> uuid \<Rightarrow> uuid \<Rightarrow> string \<Rightarrow> mensagem_row" where
  "demo_mensagem ident tenant conversation tipo =
     \<lparr>m_id = ident, m_tenant_id = tenant, m_conversa_id = conversation,
      m_remetente_tipo = tipo, m_remetente_id = None, m_conteudo = ''Oi'',
      m_tipo = Some ''text'', m_tipo_mensagem = None, m_metadata = None, m_lida = False,
      m_lida_em = None, m_resposta_para = None, m_created_at = 2\<rparr>"

definition demo_rows :: "mensagem_row list" where
  "demo_rows = [demo_mensagem ''m1'' ''tA'' ''cA'' ''cliente'',
                demo_mensagem ''m2'' ''tA'' ''cA'' ''agente'',
                demo_mensagem ''m3'' ''tB'' ''cB'' ''cliente'']"

definition demo_db :: database where
  "demo_db =
     \<lparr>users = [''uA'' \<mapsto> \<lparr>u_tenant_id = Some ''tA'', u_name = Some ''Ana''\<rparr>,
               ''uB'' \<mapsto> \<lparr>u_tenant_id = Some ''tB'', u_name = Some ''Bia''\<rparr>],
      canais = [''ch1'' \<mapsto> \<lparr>ch_tipo = ''whatsapp'', ch_tenant_id = ''tA''\<rparr>],
      contatos = Map.empty,
      agents = Map.empty,
      conversas = Some [demo_conversa ''cA'' ''tA'' ''5511'', demo_conversa ''cB'' ''tB'' ''5522''],
      mensagens = Some demo_rows,
      messages = None,
      now = 7\<rparr>"

definition demo_server :: server where
  "demo_server =
     [''sA'' \<mapsto> \<lparr>userId = ''uA'', tenantId = ''tA'',
                  rooms = {''tenant:tA'', ''conversation:cA''}, inbox = []\<rparr>,
      ''sB'' \<mapsto> \<lparr>userId = ''uB'', tenantId = ''tB'',
                  rooms = {''tenant:tB'', ''conversation:cB''}, inbox = []\<rparr>,
      ''sA2'' \<mapsto> \<lparr>userId = ''uA'', tenantId = ''tA'', rooms = {''tenant:tA''}, inbox = []\<rparr>]"

definition demo_world :: world where
  "demo_world = \<lparr>db = demo_db, io = Some demo_server\<rparr>"

definition demo_dto :: "string \<Rightarrow> uuid \<Rightarrow> create_message_dto" where
  "demo_dto sender conversation =
     \<lparr>cm_conversationId = conversation, cm_senderType = sender, cm_senderId = None,
      cm_content = ''Bom dia'', cm_type = Some ''text'', cm_metadata = None,
      cm_replyToId = None\<rparr>"

definition demo_tenant_data :: "string \<Rightarrow> tenant_message_data" where
  "demo_tenant_data sender =
     \<lparr>td_senderType = sender, td_senderId = None, td_content = ''Ola'', td_type = None,
      td_metadata = None\<rparr>"

definition demo_body :: "string \<Rightarrow> channel_body" where
  "demo_body client =
     \<lparr>cb_from = Some \<lparr>from_id = Some client, from_phone = None, from_name = Some ''Ana''\<rparr>,
      cb_message_text = Some ''Oi'', cb_message_type = Some ''text'',
      cb_message_json = ''{}'', cb_metadata_json = ''{}''\<rparr>"

text \<open>Two deliveries of a first message of the customer \<open>5599\<close> to the channel \<open>ch1\<close>.\<close>

definition demo_request :: "uuid \<Rightarrow> uuid \<Rightarrow> channel_request" where
  "demo_request conv_nid msg_nid =
     \<lparr>rq_conv_nid = conv_nid, rq_msg_nid = msg_nid, rq_type = ''whatsapp'', rq_ident = ''ch1'',
      rq_body = demo_body ''5599''\<rparr>"

section \<open>Facts about the operations\<close>

lemmas demo_defs = demo_world_def demo_db_def demo_server_def demo_conversa_def demo_mensagem_def
  demo_rows_def demo_dto_def demo_tenant_data_def demo_body_def

lemma emitNewMessage_db: "db (emitNewMessage w tenant conversation message) = db w"
  by (simp add: emitNewMessage_def split: option.splits)

lemma updateLastMessage_tables:
  "mensagens (updateLastMessage d conversation preview) = mensagens d"
  "messages (updateLastMessage d conversation preview) = messages d"
  by (simp_all add: updateLastMessage_def split: option.splits)

lemma create_appends:
  assumes "create w nid user data = (Inr resp, w')"
  shows "\<exists>row. appended_messages (db w) (db w') = [row]
            \<and> m_lida row = (cm_senderType data \<noteq> ''customer'') \<and> mr_read resp = m_lida row"
  using assms
  by (auto simp: create_def insert_mensagens_def insert_messages_def appended_messages_def
        rows_of_def emitNewMessage_db updateLastMessage_tables mapMessageToResponse_def
        create_row_def Let_def
      split: option.splits if_splits sum.splits)

lemma createByTenantId_appends:
  assumes "createByTenantId w nid tenant conversation tdata = (Some resp, w')"
  shows "\<exists>row. appended_messages (db w) (db w') = [row]
            \<and> m_lida row = (td_senderType tdata \<noteq> ''customer'') \<and> mr_read resp = m_lida row"
  using assms
  by (auto simp: createByTenantId_def insert_mensagens_def appended_messages_def
        rows_of_def emitNewMessage_db mapMessageToResponse_def tenant_row_def Let_def
      split: option.splits if_splits sum.splits)

lemma channel_message_appends:
  assumes "channel_message w conv_nid msg_nid channel_type ident body = (Inr (Received cid t), w')"
  shows "\<exists>row. appended_messages (db w) (db w') = [row]
            \<and> m_remetente_tipo row = ''customer'' \<and> \<not> m_lida row"
  using assms
  by (auto simp: channel_message_def insert_mensagens_def appended_messages_def
        rows_of_def webhook_row_def Let_def
      split: option.splits if_splits sum.splits)


lemma mapSenderTypeToPt_enum:
  "mapSenderTypeToPt ''customer'' = ''cliente''" "mapSenderTypeToPt ''agent'' = ''agente''"
  "mapSenderTypeToPt ''system'' = ''sistema''" "mapSenderTypeToPt ''bot'' = ''bot''"
  by (simp_all add: mapSenderTypeToPt_def senderTypeEnToPt_def toLowerCase_def lower_char_def)

lemma create_enum_read_flag:
  assumes "create w nid user data = (Inr resp, w')" "cm_senderType data \<in> set senderTypes"
  shows "\<exists>row. appended_messages (db w) (db w') = [row]
            \<and> m_lida row = (\<not> customer_authored row) \<and> mr_read resp = m_lida row"
  using assms
  by (auto simp: create_def insert_mensagens_def insert_messages_def appended_messages_def
        rows_of_def emitNewMessage_db updateLastMessage_tables mapMessageToResponse_def
        create_row_def Let_def senderTypes_def mapSenderTypeToPt_enum customer_authored_def
      split: option.splits if_splits sum.splits)

lemma createByTenantId_enum_read_flag:
  assumes "createByTenantId w nid tenant conversation tdata = (Some resp, w')"
    "td_senderType tdata \<in> set senderTypes"
  shows "\<exists>row. appended_messages (db w) (db w') = [row]
            \<and> m_lida row = (\<not> customer_authored row) \<and> mr_read resp = m_lida row"
  using assms
  by (auto simp: createByTenantId_def insert_mensagens_def appended_messages_def
        rows_of_def emitNewMessage_db mapMessageToResponse_def tenant_row_def Let_def
        senderTypes_def mapSenderTypeToPt_enum customer_authored_def
      split: option.splits if_splits sum.splits)

lemma set_lida_length: "length (set_lida sel ms) = length ms"
  by (simp add: set_lida_def)

lemma set_lida_nth:
  "i < length ms \<Longrightarrow> set_lida sel ms ! i = (if sel (ms ! i) then (ms ! i)\<lparr>m_lida := True\<rparr> else ms ! i)"
  by (simp add: set_lida_def)

lemma transitioned_set_lida:
  "(\<And>m. sel m \<Longrightarrow> \<not> m_lida m) \<Longrightarrow> transitioned ms (set_lida sel ms) = length (filter sel ms)"
  by (induction ms) (auto simp: transitioned_def set_lida_def)

lemma set_lida_em_length: "length (set_lida_em sel t ms) = length ms"
  by (simp add: set_lida_em_def)

lemma set_lida_em_nth:
  "i < length ms \<Longrightarrow>
   set_lida_em sel t ms ! i
     = (if sel (ms ! i) then (ms ! i)\<lparr>m_lida := True, m_lida_em := Some t\<rparr> else ms ! i)"
  by (simp add: set_lida_em_def)

lemma unread_customer_after:
  "filter (unread_customer cid tenant) (set_lida (unread_customer cid tenant) ms) = []"
  by (induction ms) (auto simp: set_lida_def unread_customer_def customer_authored_def)

lemma set_lida_twice:
  "set_lida (unread_customer cid tenant) (set_lida (unread_customer cid tenant) ms)
     = set_lida (unread_customer cid tenant) ms"
  by (induction ms) (auto simp: set_lida_def unread_customer_def customer_authored_def)

lemma markAsRead_run:
  "getTenantId (db w) user = Some tenant \<Longrightarrow> tenant \<noteq> [] \<Longrightarrow> mensagens (db w) = Some ms \<Longrightarrow>
   markAsRead w user cid None
     = (Inr (length (filter (unread_customer cid tenant) ms)),
        w\<lparr>db := (db w)\<lparr>mensagens := Some (set_lida (unread_customer cid tenant) ms)\<rparr>\<rparr>)"
  by (simp add: markAsRead_def Let_def)

lemma markAsRead_rest:
  assumes "getTenantId (db w) user = Some tenant" "tenant \<noteq> []" "mensagens (db w) = Some ms"
  shows "\<exists>ms'. markAsRead w user cid None
              = (Inr (transitioned ms ms'), w\<lparr>db := (db w)\<lparr>mensagens := Some ms'\<rparr>\<rparr>)
           \<and> length ms' = length ms
           \<and> (\<forall>i<length ms.
                 ms' ! i = (ms ! i)\<lparr>m_lida := m_lida (ms' ! i)\<rparr>
                 \<and> m_lida (ms' ! i)
                     = (m_lida (ms ! i)
                        \<or> (customer_authored (ms ! i) \<and> m_conversa_id (ms ! i) = cid
                            \<and> m_tenant_id (ms ! i) = tenant)))
           \<and> markAsRead (w\<lparr>db := (db w)\<lparr>mensagens := Some ms'\<rparr>\<rparr>) user cid None
               = (Inr 0, w\<lparr>db := (db w)\<lparr>mensagens := Some ms'\<rparr>\<rparr>)"
proof -
  let ?sel = "unread_customer cid tenant"
  let ?ms' = "set_lida ?sel ms"
  let ?w' = "w\<lparr>db := (db w)\<lparr>mensagens := Some ?ms'\<rparr>\<rparr>"
  have count: "transitioned ms ?ms' = length (filter ?sel ms)"
    by (rule transitioned_set_lida) (simp add: unread_customer_def)
  have first: "markAsRead w user cid None = (Inr (transitioned ms ?ms'), ?w')"
    using assms by (simp add: markAsRead_run count)
  have rows: "\<forall>i<length ms.
       ?ms' ! i = (ms ! i)\<lparr>m_lida := m_lida (?ms' ! i)\<rparr>
       \<and> m_lida (?ms' ! i)
           = (m_lida (ms ! i)
              \<or> (customer_authored (ms ! i) \<and> m_conversa_id (ms ! i) = cid
                  \<and> m_tenant_id (ms ! i) = tenant))"
    by (auto simp: set_lida_nth unread_customer_def)
  have tenant': "getTenantId (db ?w') user = Some tenant"
    using assms(1) by (simp add: getTenantId_def)
  have again: "markAsRead ?w' user cid None = (Inr 0, ?w')"
    using tenant' assms(2)
    by (simp add: markAsRead_run [where ms = ?ms'] unread_customer_after set_lida_twice)
  from first rows again show ?thesis
    using set_lida_length by blast
qed


lemma markAsRead_unnamed:
  assumes "mensagens (db w) = Some ms" "markAsRead w user cid mids = (r, w')"
  shows "\<exists>ms'. mensagens (db w') = Some ms' \<and> length ms' = length ms
           \<and> (\<forall>i<length ms. \<not> customer_authored (ms ! i) \<and> m_id (ms ! i) \<notin> named_ids mids
                  \<longrightarrow> ms' ! i = ms ! i)"
  using assms
  by (auto simp: markAsRead_def Let_def set_lida_length set_lida_nth named_ids_def
        unread_customer_def named_unread_def
      split: option.splits if_splits)

lemma on_message_read_run:
  "io w = Some srv \<Longrightarrow> srv sid = Some s \<Longrightarrow> mensagens (db w) = Some ms \<Longrightarrow>
   db (on_message_read w sid cid None)
     = (db w)\<lparr>mensagens := Some (set_lida_em (unread_customer cid (tenantId s)) (now (db w)) ms)\<rparr>"
  by (simp add: on_message_read_def Let_def)

lemma on_message_read_socket:
  assumes "io w = Some srv" "srv sid = Some s" "mensagens (db w) = Some ms"
  shows "\<exists>ms'. mensagens (db (on_message_read w sid cid None)) = Some ms'
           \<and> length ms' = length ms
           \<and> (\<forall>i<length ms.
                 ms' ! i = (ms ! i)\<lparr>m_lida := m_lida (ms' ! i), m_lida_em := m_lida_em (ms' ! i)\<rparr>
                 \<and> m_lida (ms' ! i)
                     = (m_lida (ms ! i)
                        \<or> (customer_authored (ms ! i) \<and> m_conversa_id (ms ! i) = cid
                            \<and> m_tenant_id (ms ! i) = tenantId s))
                 \<and> (m_lida (ms ! i) \<longrightarrow> ms' ! i = ms ! i))"
  using assms
  by (auto simp: on_message_read_run set_lida_em_length set_lida_em_nth unread_customer_def)

lemma on_message_read_unnamed:
  assumes "mensagens (db w) = Some ms"
  shows "\<exists>ms'. mensagens (db (on_message_read w sid cid mids)) = Some ms' \<and> length ms' = length ms
           \<and> (\<forall>i<length ms. \<not> customer_authored (ms ! i) \<and> m_id (ms ! i) \<notin> named_ids mids
                  \<longrightarrow> ms' ! i = ms ! i)"
  using assms
  by (auto simp: on_message_read_def Let_def set_lida_em_length set_lida_em_nth named_ids_def
        unread_customer_def named_rows_def
      split: option.splits if_splits)


lemma demo_facts:
  "getTenantId (db demo_world) ''uA'' = Some ''tA''"
  "mensagens (db demo_world) = Some demo_rows"
  "io demo_world = Some demo_server"
  "demo_server ''sA'' = Some \<lparr>userId = ''uA'', tenantId = ''tA'',
                  rooms = {''tenant:tA'', ''conversation:cA''}, inbox = []\<rparr>"
  by (simp_all add: demo_defs getTenantId_def)

lemma conv_check_list_ex:
  "(conv_check cs cid tenant = []) = (\<not> list_ex (\<lambda>c. c_id c = cid \<and> c_tenant_id c = tenant) cs)"
  by (induction cs) (auto simp: conv_check_def)

lemma member_of_join:
  "member_of (on_conversation_join w sid cid) k r
     = (member_of w k r \<or> (k = sid \<and> r = conversation_room cid \<and> owns_conversation w sid cid))"
  by (auto simp: on_conversation_join_def member_of_def owns_conversation_def socket_join_def
        socket_emit_def deliver_def rows_of_def conv_check_list_ex
      split: option.splits if_splits)

lemma tenant_fixed_by_join:
  "io w = Some srv \<Longrightarrow> srv sid = Some s \<Longrightarrow>
   \<exists>srv' s'. io (on_conversation_join w sid cid) = Some srv' \<and> srv' sid = Some s'
      \<and> tenantId s' = tenantId s \<and> userId s' = userId s"
  by (auto simp: on_conversation_join_def socket_join_def socket_emit_def deliver_def
      split: option.splits if_splits)

lemma io_to_emit_nonmember:
  "io w = Some srv \<Longrightarrow> \<not> member_of w k r \<Longrightarrow>
   inbox_of (w\<lparr>io := Some (io_to_emit r ev srv)\<rparr>) k = inbox_of w k"
  by (auto simp: inbox_of_def member_of_def io_to_emit_def split: option.splits)

lemma socket_to_emit_nonmember:
  "io w = Some srv \<Longrightarrow> \<not> member_of w k r \<Longrightarrow>
   inbox_of (w\<lparr>io := Some (socket_to_emit sid r ev srv)\<rparr>) k = inbox_of w k"
  by (auto simp: inbox_of_def member_of_def socket_to_emit_def split: option.splits)

lemma emitToConversation_nonmember:
  "\<not> member_of w k (conversation_room cid) \<Longrightarrow> inbox_of (emitToConversation w cid ev) k = inbox_of w k"
  by (auto simp: emitToConversation_def inbox_of_def member_of_def io_to_emit_def split: option.splits)

lemma emitNewMessage_nonmember:
  "\<not> member_of w k (conversation_room cid) \<Longrightarrow> \<not> member_of w k (tenant_room tenant) \<Longrightarrow>
   inbox_of (emitNewMessage w tenant cid message) k = inbox_of w k"
  by (auto simp: emitNewMessage_def inbox_of_def member_of_def io_to_emit_def split: option.splits)

lemma typing_start_nonmember:
  "\<not> member_of w k (conversation_room cid) \<Longrightarrow> inbox_of (on_typing_start w sid cid) k = inbox_of w k"
  by (auto simp: on_typing_start_def Let_def inbox_of_def member_of_def socket_to_emit_def
      split: option.splits)

lemma typing_stop_nonmember:
  "\<not> member_of w k (conversation_room cid) \<Longrightarrow> inbox_of (on_typing_stop w sid cid) k = inbox_of w k"
  by (auto simp: on_typing_stop_def inbox_of_def member_of_def socket_to_emit_def
      split: option.splits)

lemma message_read_nonmember:
  "\<not> member_of w k (conversation_room cid) \<Longrightarrow> k \<noteq> sid \<Longrightarrow>
   inbox_of (on_message_read w sid cid mids) k = inbox_of w k"
  by (auto simp: on_message_read_def Let_def inbox_of_def member_of_def socket_to_emit_def
        socket_emit_def
      split: option.splits)





lemma create_not_found:
  "getTenantId (db w) user = Some tenant \<Longrightarrow> tenant \<noteq> [] \<Longrightarrow> conversas (db w) = Some cs \<Longrightarrow>
   \<not> list_ex (\<lambda>c. c_id c = cm_conversationId data \<and> c_tenant_id c = tenant) cs \<Longrightarrow>
   create w nid user data = (Inl (NotFoundError ''Conversation''), w)"
  by (simp add: create_def conv_check_list_ex)

lemma createByTenantId_null:
  "mensagens (db w) = None \<Longrightarrow> createByTenantId w nid tenant conversation tdata = (None, w)"
  by (simp add: createByTenantId_def insert_mensagens_def)

lemma channel_message_io: "io (snd (channel_message w conv_nid msg_nid channel_type ident body)) = io w"
  by (simp add: channel_message_def Let_def split: option.splits sum.splits)

lemma updateStatus_io: "io (snd (updateStatus w ident user status)) = io w"
  by (simp add: updateStatus_def Let_def split: option.splits)

lemma assignAgent_io: "io (snd (assignAgent w ident user agentId)) = io w"
  by (simp add: assignAgent_def Let_def split: option.splits)

lemma inbox_of_io: "io w' = io w \<Longrightarrow> inbox_of w' k = inbox_of w k"
  by (simp add: inbox_of_def)

lemma run_alone:
  "run w [(rq, AtChannelLookup)] [0, 0, 0, 0]
     = (snd (channel_message w (rq_conv_nid rq) (rq_msg_nid rq) (rq_type rq) (rq_ident rq) (rq_body rq)),
        [(rq, Finished (fst (channel_message w (rq_conv_nid rq) (rq_msg_nid rq) (rq_type rq)
                               (rq_ident rq) (rq_body rq))))])"
  by (auto simp: channel_message_def Let_def insert_mensagens_def
      split: option.splits sum.splits)


lemmas eval_defs = getTenantId_def conv_check_def insert_mensagens_def insert_messages_def Let_def
  updateLastMessage_def emitNewMessage_def io_to_emit_def deliver_def inbox_of_def member_of_def
  appended_messages_def rows_of_def mapMessageToResponse_def nonempty_def js_or_def truthy_def
  coalesce_def sql_eq_def tenant_room_def conversation_room_def find_conversation_def
  customer_key_def customer_display_name_def new_conversa_def webhook_row_def tenant_row_def
  create_row_def touch_conversa_def

lemma create_fallback_not_broadcast:
  "(\<exists>resp. fst (create (demo_world\<lparr>db := demo_db\<lparr>mensagens := None, messages := Some []\<rparr>\<rparr>)
                    ''m9'' ''uA'' (demo_dto ''agent'' ''cA'')) = Inr resp)
   \<and> inbox_of (snd (create (demo_world\<lparr>db := demo_db\<lparr>mensagens := None, messages := Some []\<rparr>\<rparr>)
                    ''m9'' ''uA'' (demo_dto ''agent'' ''cA''))) ''sA'' = []"
  by (simp add: create_def eval_defs demo_defs)

lemma create_persists_then_broadcasts:
  assumes "getTenantId (db w) user = Some tenant" "tenant \<noteq> []" "conversas (db w) = Some cs"
    and "list_ex (\<lambda>c. c_id c = cm_conversationId data \<and> c_tenant_id c = tenant) cs"
    and "mensagens (db w) = Some ms"
    and "row = create_row (db w) nid tenant (mapSenderTypeToPt (cm_senderType data)) data"
  shows "create w nid user data
           = (Inr (mapMessageToResponse row None None),
              emitNewMessage
                (w\<lparr>db := updateLastMessage ((db w)\<lparr>mensagens := Some (ms @ [row])\<rparr>)
                           (cm_conversationId data) (take 100 (cm_content data))\<rparr>)
                tenant (cm_conversationId data) (mapMessageToResponse row None None))"
  using assms
  by (simp add: create_def insert_mensagens_def Let_def conv_check_list_ex)

lemma emitNewMessage_inbox:
  "io w = Some srv \<Longrightarrow>
   inbox_of (emitNewMessage w tenant cid message) k
     = inbox_of w k
       @ (if member_of w k (conversation_room cid) then [(''message:new'', MessagePayload message)] else [])
       @ (if member_of w k (tenant_room tenant) then [(''message:new'', MessagePayload message)] else [])"
  by (auto simp: emitNewMessage_def inbox_of_def member_of_def io_to_emit_def deliver_def
      split: option.splits)

lemma emitConversationUpdate_inbox:
  "io w = Some srv \<Longrightarrow>
   inbox_of (emitConversationUpdate w tenant conversation) k
     = inbox_of w k
       @ (if member_of w k (tenant_room tenant)
          then [(''conversation:updated'', ConversationPayload conversation)] else [])"
  by (auto simp: emitConversationUpdate_def inbox_of_def member_of_def io_to_emit_def deliver_def
      split: option.splits)

lemma emitNewConversation_inbox:
  "io w = Some srv \<Longrightarrow>
   inbox_of (emitNewConversation w tenant conversation) k
     = inbox_of w k
       @ (if member_of w k (tenant_room tenant)
          then [(''conversation:new'', ConversationPayload conversation)] else [])"
  by (auto simp: emitNewConversation_def inbox_of_def member_of_def io_to_emit_def deliver_def
      split: option.splits)

lemma listByConversation_own_tenant:
  assumes "listByConversation d params = Inr (rs, n)" "r \<in> set rs"
  shows "getTenantId d (lp_userId params) = Some (mr_tenant_id r)
         \<and> mr_conversation_id r = nonempty (lp_conversationId params)"
  using assms
  by (auto simp: listByConversation_def Let_def mapMessageToResponse_def list_where_def
      split: option.splits if_splits dest!: in_set_takeD in_set_dropD)

lemma message_getById_own_tenant:
  "message_getById d ident user = Inr r \<Longrightarrow> getTenantId d user = Some (mr_tenant_id r)"
  by (auto simp: message_getById_def mapMessageToResponse_def filter_eq_Cons_iff
      split: option.splits if_splits list.splits)

lemma getById_own_tenant:
  "getById d ident user = Inr r \<Longrightarrow> getTenantId d user = Some (cr_tenant_id r)"
  by (auto simp: getById_def mapConversationToResponse_def filter_eq_Cons_iff
      split: option.splits if_splits list.splits)

lemma getByTenantId_own_tenant:
  "getByTenantId d tenant cid = Some r \<Longrightarrow> cr_tenant_id r = tenant"
  by (auto simp: getByTenantId_def mapConversationToResponse_def filter_eq_Cons_iff
      split: option.splits if_splits list.splits)

lemma markAsRead_own_tenant:
  assumes "markAsRead w user cid mids = (r, w')" "mensagens (db w) = Some ms" "i < length ms"
    and "getTenantId (db w) user \<noteq> Some (m_tenant_id (ms ! i))"
  shows "rows_of (mensagens (db w')) ! i = ms ! i"
  using assms
  by (auto simp: markAsRead_def Let_def rows_of_def set_lida_nth unread_customer_def
        named_unread_def
      split: option.splits if_splits)

lemma create_own_tenant:
  "create w nid user data = (Inr resp, w') \<Longrightarrow>
   getTenantId (db w) user = Some (mr_tenant_id resp)
   \<and> list_ex (\<lambda>c. c_id c = cm_conversationId data \<and> c_tenant_id c = mr_tenant_id resp)
        (rows_of (conversas (db w)))"
  by (auto simp: create_def Let_def insert_mensagens_def insert_messages_def rows_of_def
        mapMessageToResponse_def create_row_def conv_check_list_ex
      split: option.splits if_splits sum.splits)

lemma getUnreadCount_own_tenant:
  assumes "getTenantId d user = Some tenant" "mensagens d = Some ms"
    and "list_all (\<lambda>m. m_tenant_id m \<noteq> tenant) ms"
  shows "getUnreadCount d user cid = 0"
  using assms
  by (auto simp: getUnreadCount_def unread_customer_def list_all_iff)

lemma validateWebhookSignature_accepts:
  assumes "validateWebhookSignature hmac_hex (Some sec) headers body_json = Next" "sec \<noteq> []"
  shows "js_or (x_webhook_signature headers) (x_webhook_secret headers) = Some sec
         \<or> js_or (x_webhook_signature headers) (x_webhook_secret headers)
              = Some (''sha256='' @ hmac_hex sec body_json)"
  using assms
  by (auto simp: validateWebhookSignature_def Let_def timingSafeEqual_def
      split: option.splits if_splits)

lemma validateWebhookSignature_disabled:
  "validateWebhookSignature hmac_hex None headers body_json = Next"
  "validateWebhookSignature hmac_hex (Some []) headers body_json = Next"
  by (simp_all add: validateWebhookSignature_def)

lemma validateWebhookSignature_throws:
  "validateWebhookSignature (\<lambda>key t. ''00'') (Some ''s3cret'')
       \<lparr>x_webhook_signature = Some ''sha256=0'', x_webhook_secret = None\<rparr> ''{}''
     = Throws RangeError"
  by (simp add: validateWebhookSignature_def js_or_def truthy_def startsWith_def timingSafeEqual_def)

lemma find_conversation_reuses:
  "conversas (db w) = Some cs \<Longrightarrow> canais (db w) ident = Some ch \<Longrightarrow> ch_tipo ch = channel_type \<Longrightarrow>
   find_conversation cs (customer_key body) channel_type (ch_tenant_id ch) = Some cid \<Longrightarrow> cid \<noteq> [] \<Longrightarrow>
   conversas (db (snd (channel_message w conv_nid msg_nid channel_type ident body))) = Some cs"
  by (auto simp: channel_message_def Let_def truthy_def insert_mensagens_def split: option.splits)

section \<open>Initial read flag\<close>


section \<open>Marking messages read\<close>

text \<open>
  Claim C5. With the ids omitted, \<open>markAsRead\<close> turns exactly the unread customer-authored
  rows of the conversation and of the caller's tenant to read, changes nothing else of any
  row, returns the number of rows that went from unread to read, and returns 0 without any
  change when called again. The socket handler \<open>message:read\<close>, which has no return value,
  makes the same rows read (and stamps \<open>lida_em\<close> on them) and leaves every row that was
  already read as it is. On both paths, with or without ids, a row that is not
  customer-authored and is not named by the call is unchanged.
\<close>

theorem C5_mark_read_scope:
  "(getTenantId (db w) user = Some tenant \<and> tenant \<noteq> [] \<and> mensagens (db w) = Some ms \<longrightarrow>
      (\<exists>ms'. markAsRead w user cid None
                = (Inr (transitioned ms ms'), w\<lparr>db := (db w)\<lparr>mensagens := Some ms'\<rparr>\<rparr>)
         \<and> length ms' = length ms
         \<and> (\<forall>i<length ms.
               ms' ! i = (ms ! i)\<lparr>m_lida := m_lida (ms' ! i)\<rparr>
               \<and> m_lida (ms' ! i)
                   = (m_lida (ms ! i)
                      \<or> (customer_authored (ms ! i) \<and> m_conversa_id (ms ! i) = cid
                          \<and> m_tenant_id (ms ! i) = tenant)))
         \<and> markAsRead (w\<lparr>db := (db w)\<lparr>mensagens := Some ms'\<rparr>\<rparr>) user cid None
             = (Inr 0, w\<lparr>db := (db w)\<lparr>mensagens := Some ms'\<rparr>\<rparr>)))
   \<and> (io w = Some srv \<and> srv sid = Some s \<and> mensagens (db w) = Some ms \<longrightarrow>
      (\<exists>ms'. mensagens (db (on_message_read w sid cid None)) = Some ms'
         \<and> length ms' = length ms
         \<and> (\<forall>i<length ms.
               ms' ! i = (ms ! i)\<lparr>m_lida := m_lida (ms' ! i), m_lida_em := m_lida_em (ms' ! i)\<rparr>
               \<and> m_lida (ms' ! i)
                   = (m_lida (ms ! i)
                      \<or> (customer_authored (ms ! i) \<and> m_conversa_id (ms ! i) = cid
                          \<and> m_tenant_id (ms ! i) = tenantId s))
               \<and> (m_lida (ms ! i) \<longrightarrow> ms' ! i = ms ! i))))
   \<and> (mensagens (db w) = Some ms \<and> markAsRead w user cid mids = (r, w') \<longrightarrow>
      (\<exists>ms'. mensagens (db w') = Some ms' \<and> length ms' = length ms
         \<and> (\<forall>i<length ms. \<not> customer_authored (ms ! i) \<and> m_id (ms ! i) \<notin> named_ids mids
                \<longrightarrow> ms' ! i = ms ! i)))
   \<and> (mensagens (db w) = Some ms \<longrightarrow>
      (\<exists>ms'. mensagens (db (on_message_read w sid cid mids)) = Some ms' \<and> length ms' = length ms
         \<and> (\<forall>i<length ms. \<not> customer_authored (ms ! i) \<and> m_id (ms ! i) \<notin> named_ids mids
                \<longrightarrow> ms' ! i = ms ! i)))"
proof (intro conjI impI)
  assume "getTenantId (db w) user = Some tenant \<and> tenant \<noteq> [] \<and> mensagens (db w) = Some ms"
  then show "\<exists>ms'. markAsRead w user cid None
                = (Inr (transitioned ms ms'), w\<lparr>db := (db w)\<lparr>mensagens := Some ms'\<rparr>\<rparr>)
         \<and> length ms' = length ms
         \<and> (\<forall>i<length ms.
               ms' ! i = (ms ! i)\<lparr>m_lida := m_lida (ms' ! i)\<rparr>
               \<and> m_lida (ms' ! i)
                   = (m_lida (ms ! i)
                      \<or> (customer_authored (ms ! i) \<and> m_conversa_id (ms ! i) = cid
                          \<and> m_tenant_id (ms ! i) = tenant)))
         \<and> markAsRead (w\<lparr>db := (db w)\<lparr>mensagens := Some ms'\<rparr>\<rparr>) user cid None
             = (Inr 0, w\<lparr>db := (db w)\<lparr>mensagens := Some ms'\<rparr>\<rparr>)"
    using markAsRead_rest by blast
next
  assume "io w = Some srv \<and> srv sid = Some s \<and> mensagens (db w) = Some ms"
  then show "\<exists>ms'. mensagens (db (on_message_read w sid cid None)) = Some ms'
         \<and> length ms' = length ms
         \<and> (\<forall>i<length ms.
               ms' ! i = (ms ! i)\<lparr>m_lida := m_lida (ms' ! i), m_lida_em := m_lida_em (ms' ! i)\<rparr>
               \<and> m_lida (ms' ! i)
                   = (m_lida (ms ! i)
                      \<or> (customer_authored (ms ! i) \<and> m_conversa_id (ms ! i) = cid
                          \<and> m_tenant_id (ms ! i) = tenantId s))
               \<and> (m_lida (ms ! i) \<longrightarrow> ms' ! i = ms ! i))"
    using on_message_read_socket by blast
next
  assume "mensagens (db w) = Some ms \<and> markAsRead w user cid mids = (r, w')"
  then show "\<exists>ms'. mensagens (db w') = Some ms' \<and> length ms' = length ms
         \<and> (\<forall>i<length ms. \<not> customer_authored (ms ! i) \<and> m_id (ms ! i) \<notin> named_ids mids
                \<longrightarrow> ms' ! i = ms ! i)"
    using markAsRead_unnamed by blast
next
  assume "mensagens (db w) = Some ms"
  then show "\<exists>ms'. mensagens (db (on_message_read w sid cid mids)) = Some ms' \<and> length ms' = length ms
         \<and> (\<forall>i<length ms. \<not> customer_authored (ms ! i) \<and> m_id (ms ! i) \<notin> named_ids mids
                \<longrightarrow> ms' ! i = ms ! i)"
    by (rule on_message_read_unnamed)
qed

theorem C5_mark_read_scope_witness:
  "getTenantId (db demo_world) ''uA'' = Some ''tA'' \<and> ''tA'' \<noteq> []
   \<and> mensagens (db demo_world) = Some demo_rows
   \<and> io demo_world = Some demo_server
   \<and> (\<exists>s. demo_server ''sA'' = Some s \<and> tenantId s = ''tA'')
   \<and> (\<exists>ms'. markAsRead demo_world ''uA'' ''cA'' None
                = (Inr (transitioned demo_rows ms'),
                   demo_world\<lparr>db := (db demo_world)\<lparr>mensagens := Some ms'\<rparr>\<rparr>)
         \<and> map m_lida ms' = [True, False, False]
         \<and> markAsRead (demo_world\<lparr>db := (db demo_world)\<lparr>mensagens := Some ms'\<rparr>\<rparr>) ''uA'' ''cA'' None
             = (Inr 0, demo_world\<lparr>db := (db demo_world)\<lparr>mensagens := Some ms'\<rparr>\<rparr>))
   \<and> fst (markAsRead demo_world ''uA'' ''cA'' None) = Inr 1
   \<and> map m_lida (rows_of (mensagens (db (on_message_read demo_world ''sA'' ''cA'' None))))
       = [True, False, False]
   \<and> map m_lida (rows_of (mensagens (db (on_message_read demo_world ''sA'' ''cA'' (Some [''m1''])))))
       = [True, False, False]"
proof -
  note T = C5_mark_read_scope [where w = demo_world and user = "''uA''" and tenant = "''tA''"
      and ms = demo_rows and cid = "''cA''", THEN conjunct1]
  obtain ms' where
    run: "markAsRead demo_world ''uA'' ''cA'' None
            = (Inr (transitioned demo_rows ms'),
               demo_world\<lparr>db := (db demo_world)\<lparr>mensagens := Some ms'\<rparr>\<rparr>)"
    and again: "markAsRead (demo_world\<lparr>db := (db demo_world)\<lparr>mensagens := Some ms'\<rparr>\<rparr>) ''uA'' ''cA'' None
             = (Inr 0, demo_world\<lparr>db := (db demo_world)\<lparr>mensagens := Some ms'\<rparr>\<rparr>)"
    using T demo_facts by auto
  have eval: "markAsRead demo_world ''uA'' ''cA'' None
      = (Inr 1, demo_world\<lparr>db := (db demo_world)\<lparr>mensagens :=
           Some [(demo_mensagem ''m1'' ''tA'' ''cA'' ''cliente'')\<lparr>m_lida := True\<rparr>,
                 demo_mensagem ''m2'' ''tA'' ''cA'' ''agente'',
                 demo_mensagem ''m3'' ''tB'' ''cB'' ''cliente'']\<rparr>\<rparr>)"
    by (simp add: markAsRead_run [OF demo_facts(1) _ demo_facts(2)] demo_rows_def set_lida_def
          unread_customer_def customer_authored_def demo_mensagem_def)
  have "Some ms' = mensagens (db (snd (markAsRead demo_world ''uA'' ''cA'' None)))"
    by (simp add: run)
  also have "\<dots> = Some [(demo_mensagem ''m1'' ''tA'' ''cA'' ''cliente'')\<lparr>m_lida := True\<rparr>,
                 demo_mensagem ''m2'' ''tA'' ''cA'' ''agente'',
                 demo_mensagem ''m3'' ''tB'' ''cB'' ''cliente'']"
    by (simp add: eval)
  finally have ms': "ms' = [(demo_mensagem ''m1'' ''tA'' ''cA'' ''cliente'')\<lparr>m_lida := True\<rparr>,
                 demo_mensagem ''m2'' ''tA'' ''cA'' ''agente'',
                 demo_mensagem ''m3'' ''tB'' ''cB'' ''cliente'']"
    by simp
  have flags: "map m_lida ms' = [True, False, False]"
    by (simp add: ms' demo_mensagem_def)
  have s1: "map m_lida (rows_of (mensagens (db (on_message_read demo_world ''sA'' ''cA'' None))))
       = [True, False, False]"
    by (simp add: on_message_read_def demo_defs Let_def set_lida_em_def unread_customer_def
          customer_authored_def rows_of_def)
  have s2: "map m_lida (rows_of (mensagens (db (on_message_read demo_world ''sA'' ''cA'' (Some [''m1''])))))
       = [True, False, False]"
    by (simp add: on_message_read_def demo_defs Let_def set_lida_em_def named_rows_def rows_of_def)
  have one: "fst (markAsRead demo_world ''uA'' ''cA'' None) = Inr 1"
    by (simp add: eval)
  have sock: "\<exists>s. demo_server ''sA'' = Some s \<and> tenantId s = ''tA''"
    by (simp add: demo_facts)
  from run again flags have ex: "\<exists>ms'. markAsRead demo_world ''uA'' ''cA'' None
                = (Inr (transitioned demo_rows ms'),
                   demo_world\<lparr>db := (db demo_world)\<lparr>mensagens := Some ms'\<rparr>\<rparr>)
         \<and> map m_lida ms' = [True, False, False]
         \<and> markAsRead (demo_world\<lparr>db := (db demo_world)\<lparr>mensagens := Some ms'\<rparr>\<rparr>) ''uA'' ''cA'' None
             = (Inr 0, demo_world\<lparr>db := (db demo_world)\<lparr>mensagens := Some ms'\<rparr>\<rparr>)"
    by - (rule exI [of _ ms'], intro conjI; assumption)
  show ?thesis
    using ex one s1 s2 sock demo_facts(1,2,3) by simp
qed

section \<open>Joining a conversation room\<close>

text \<open>
  Claim C6. After \<open>conversation:join\<close> a connection is in a room exactly when it was there
  before, or the room is the one of the requested conversation and that conversation
  exists, at the time of the request, with the tenant of the connection; no other
  connection's rooms change, and the tenant of the connection stays what it was. A
  connection that is not in the room of a conversation is sent nothing by what the hub
  addresses to that room: \<open>emitToConversation\<close>, the typing relays, the read relay and,
  when it is not in the tenant room either, \<open>emitNewMessage\<close>.
\<close>

theorem C6_join_gated_by_tenant:
  "member_of (on_conversation_join w sid cid) k r
     = (member_of w k r \<or> (k = sid \<and> r = conversation_room cid \<and> owns_conversation w sid cid))
   \<and> (io w = Some srv \<and> srv sid = Some s \<longrightarrow>
        (\<exists>srv' s'. io (on_conversation_join w sid cid) = Some srv' \<and> srv' sid = Some s'
            \<and> tenantId s' = tenantId s))
   \<and> (\<not> member_of w k (conversation_room cid) \<longrightarrow>
        inbox_of (emitToConversation w cid ev) k = inbox_of w k
        \<and> inbox_of (on_typing_start w sender cid) k = inbox_of w k
        \<and> inbox_of (on_typing_stop w sender cid) k = inbox_of w k
        \<and> (k \<noteq> sender \<longrightarrow> inbox_of (on_message_read w sender cid mids) k = inbox_of w k)
        \<and> (\<not> member_of w k (tenant_room tenant) \<longrightarrow>
              inbox_of (emitNewMessage w tenant cid message) k = inbox_of w k))"
proof (intro conjI impI)
  show "member_of (on_conversation_join w sid cid) k r
     = (member_of w k r \<or> (k = sid \<and> r = conversation_room cid \<and> owns_conversation w sid cid))"
    by (rule member_of_join)
next
  assume "io w = Some srv \<and> srv sid = Some s"
  then show "\<exists>srv' s'. io (on_conversation_join w sid cid) = Some srv' \<and> srv' sid = Some s'
            \<and> tenantId s' = tenantId s"
    using tenant_fixed_by_join [of w srv sid s cid] by blast
next
  assume "\<not> member_of w k (conversation_room cid)"
  then show "inbox_of (emitToConversation w cid ev) k = inbox_of w k"
    by (rule emitToConversation_nonmember)
next
  assume "\<not> member_of w k (conversation_room cid)"
  then show "inbox_of (on_typing_start w sender cid) k = inbox_of w k"
    by (rule typing_start_nonmember)
next
  assume "\<not> member_of w k (conversation_room cid)"
  then show "inbox_of (on_typing_stop w sender cid) k = inbox_of w k"
    by (rule typing_stop_nonmember)
next
  assume "\<not> member_of w k (conversation_room cid)" "k \<noteq> sender"
  then show "inbox_of (on_message_read w sender cid mids) k = inbox_of w k"
    by (rule message_read_nonmember)
next
  assume "\<not> member_of w k (conversation_room cid)" "\<not> member_of w k (tenant_room tenant)"
  then show "inbox_of (emitNewMessage w tenant cid message) k = inbox_of w k"
    by (rule emitNewMessage_nonmember)
qed

theorem C6_join_gated_by_tenant_witness:
  "\<not> owns_conversation demo_world ''sA2'' ''cB''
   \<and> \<not> member_of (on_conversation_join demo_world ''sA2'' ''cB'') ''sA2'' (conversation_room ''cB'')
   \<and> inbox_of (emitToConversation (on_conversation_join demo_world ''sA2'' ''cB'') ''cB''
                 (''message:read'', ReadPayload ''cB'' [])) ''sA2'' = []
   \<and> inbox_of (emitToConversation (on_conversation_join demo_world ''sA2'' ''cB'') ''cB''
                 (''message:read'', ReadPayload ''cB'' [])) ''sB''
       = [(''message:read'', ReadPayload ''cB'' [])]
   \<and> owns_conversation demo_world ''sA2'' ''cA''
   \<and> \<not> member_of demo_world ''sA2'' (conversation_room ''cA'')
   \<and> member_of (on_conversation_join demo_world ''sA2'' ''cA'') ''sA2'' (conversation_room ''cA'')"
proof -
  let ?w = "on_conversation_join demo_world ''sA2'' ''cB''"
  let ?ev = "(''message:read'', ReadPayload ''cB'' [])"
  have no: "\<not> owns_conversation demo_world ''sA2'' ''cB''"
    and yes: "owns_conversation demo_world ''sA2'' ''cA''"
    by (simp_all add: owns_conversation_def demo_defs rows_of_def)
  have before: "\<not> member_of demo_world ''sA2'' (conversation_room ''cB'')"
    "\<not> member_of demo_world ''sA2'' (conversation_room ''cA'')"
    by (simp_all add: member_of_def demo_defs conversation_room_def)
  have rejected: "\<not> member_of ?w ''sA2'' (conversation_room ''cB'')"
    using no before
      C6_join_gated_by_tenant [where w = demo_world and sid = "''sA2''" and cid = "''cB''"
        and k = "''sA2''" and r = "conversation_room ''cB''", THEN conjunct1]
    by simp
  have same: "?w = demo_world"
    by (simp add: on_conversation_join_def demo_defs conv_check_def)
  have "inbox_of (emitToConversation ?w ''cB'' ?ev) ''sA2'' = inbox_of ?w ''sA2''"
    using rejected
      C6_join_gated_by_tenant [where w = ?w and cid = "''cB''" and k = "''sA2''" and ev = ?ev,
        THEN conjunct2, THEN conjunct2]
    by simp
  also have "\<dots> = []"
    unfolding same by (simp add: inbox_of_def demo_defs)
  finally have silent: "inbox_of (emitToConversation ?w ''cB'' ?ev) ''sA2'' = []" .
  have heard: "inbox_of (emitToConversation ?w ''cB'' ?ev) ''sB'' = [?ev]"
    unfolding same
    by (simp add: emitToConversation_def inbox_of_def io_to_emit_def deliver_def demo_defs
          conversation_room_def)
  have granted: "member_of (on_conversation_join demo_world ''sA2'' ''cA'') ''sA2'' (conversation_room ''cA'')"
    using yes
      C6_join_gated_by_tenant [where w = demo_world and sid = "''sA2''" and cid = "''cA''"
        and k = "''sA2''" and r = "conversation_room ''cA''", THEN conjunct1]
    by simp
  from no rejected silent heard yes before(2) granted show ?thesis by simp
qed

section \<open>Typing indicators\<close>




section \<open>Appending to a conversation that is not the caller's\<close>

text \<open>
  Claim C2, at the input where the code departs from it. The conversation \<open>cA\<close> belongs to
  tenant \<open>tA\<close>; no row of \<open>conversas\<close> has that id under tenant \<open>tB\<close>. \<open>createByTenantId\<close>
  called with tenant \<open>tB\<close> for \<open>cA\<close> looks no conversation up: it returns the message and
  stores its row. \<open>create\<close>, called for the same conversation by the user \<open>uB\<close> of tenant
  \<open>tB\<close>, fails with \<open>NotFoundError('Conversation')\<close> and stores nothing.
  (\<open>create_not_found\<close>: on the authenticated path this holds for every conversation that
  is absent or of another tenant, and the whole state is left as it was.)
\<close>

theorem C2_createByTenantId_foreign_conversation:
  "conv_check (rows_of (conversas (db demo_world))) ''cA'' ''tB'' = []
   \<and> (\<exists>resp. fst (createByTenantId demo_world ''m9'' ''tB'' ''cA'' (demo_tenant_data ''customer''))
               = Some resp
        \<and> mr_tenant_id resp = ''tB'' \<and> mr_conversation_id resp = Some ''cA'')
   \<and> map m_id (appended_messages (db demo_world)
        (db (snd (createByTenantId demo_world ''m9'' ''tB'' ''cA'' (demo_tenant_data ''customer'')))))
       = [''m9'']
   \<and> getTenantId (db demo_world) ''uB'' = Some ''tB''
   \<and> fst (create demo_world ''m9'' ''uB'' (demo_dto ''customer'' ''cA''))
       = Inl (NotFoundError ''Conversation'')
   \<and> appended_messages (db demo_world)
        (db (snd (create demo_world ''m9'' ''uB'' (demo_dto ''customer'' ''cA'')))) = []"
  by (simp add: createByTenantId_def create_def eval_defs demo_defs)

section \<open>Broadcast of appended messages\<close>

text \<open>
  Claim C1, at the input where the code departs from it. The webhook handler
  \<open>POST /channels/:type/:id\<close> receives a message of the customer \<open>5511\<close> on the channel
  \<open>ch1\<close>: it answers 200 with the conversation \<open>cA\<close> and stores the message row \<open>m9\<close>, but
  the connection \<open>sA\<close>, which is in the room of \<open>cA\<close> and in the tenant room, and the
  connection \<open>sA2\<close>, which is in the tenant room, are sent nothing, and the preview of the
  conversation is not updated. \<open>createByTenantId\<close>, on the same state, sends \<open>message:new\<close> to
  both rooms. (\<open>create_persists_then_broadcasts\<close> and \<open>emitNewMessage_inbox\<close> give the
  authenticated path on its primary table: insert, preview update, then both broadcasts;
  \<open>create_fallback_not_broadcast\<close> is its fallback table, where nothing is sent.)
\<close>

theorem C1_webhook_append_not_broadcast:
  "fst (channel_message demo_world ''c9'' ''m9'' ''whatsapp'' ''ch1'' (demo_body ''5511''))
     = Inr (Received ''cA'' 7)
   \<and> map m_id (appended_messages (db demo_world)
        (db (snd (channel_message demo_world ''c9'' ''m9'' ''whatsapp'' ''ch1'' (demo_body ''5511'')))))
       = [''m9'']
   \<and> member_of demo_world ''sA'' (conversation_room ''cA'')
   \<and> member_of demo_world ''sA2'' (tenant_room ''tA'')
   \<and> inbox_of (snd (channel_message demo_world ''c9'' ''m9'' ''whatsapp'' ''ch1'' (demo_body ''5511''))) ''sA'' = []
   \<and> inbox_of (snd (channel_message demo_world ''c9'' ''m9'' ''whatsapp'' ''ch1'' (demo_body ''5511''))) ''sA2'' = []
   \<and> map c_ultima_mensagem (rows_of (conversas
        (db (snd (channel_message demo_world ''c9'' ''m9'' ''whatsapp'' ''ch1'' (demo_body ''5511''))))))
       = [None, None]
   \<and> map fst (inbox_of (snd (createByTenantId demo_world ''m9'' ''tA'' ''cA''
                                 (demo_tenant_data ''customer''))) ''sA'')
       = [''message:new'', ''message:new'']
   \<and> map fst (inbox_of (snd (createByTenantId demo_world ''m9'' ''tA'' ''cA''
                                 (demo_tenant_data ''customer''))) ''sA2'')
       = [''message:new'']"
  by (simp add: channel_message_def createByTenantId_def eval_defs demo_defs)


section \<open>Tenant isolation\<close>

text \<open>
  Claim C3, at the input where the code departs from it. \<open>createByTenantId\<close> called with
  tenant \<open>tB\<close> for the conversation \<open>cA\<close>, which no query finds under \<open>tB\<close>: the statement
  that updates the preview has no tenant in its condition and rewrites the row of tenant
  \<open>tA\<close>; the stored message has tenant \<open>tB\<close> and conversation \<open>cA\<close>; the user \<open>uA\<close> then
  reads the text of tenant \<open>tB\<close> as the last message of its conversation, and the viewer
  \<open>sA\<close> of tenant \<open>tA\<close> is sent the message of tenant \<open>tB\<close>. (The other operations filter by
  the caller's tenant: \<open>listByConversation_own_tenant\<close>, \<open>message_getById_own_tenant\<close>,
  \<open>getById_own_tenant\<close>, \<open>getByTenantId_own_tenant\<close>, \<open>getUnreadCount_own_tenant\<close>,
  \<open>markAsRead_own_tenant\<close>, \<open>create_own_tenant\<close>.)
\<close>

theorem C3_cross_tenant_write:
  "conv_check (rows_of (conversas (db demo_world))) ''cA'' ''tB'' = []
   \<and> map (\<lambda>c. (c_id c, c_tenant_id c, c_ultima_mensagem c))
        (rows_of (conversas (db (snd (createByTenantId demo_world ''m9'' ''tB'' ''cA''
                                        (demo_tenant_data ''customer''))))))
       = [(''cA'', ''tA'', Some ''Ola''), (''cB'', ''tB'', None)]
   \<and> map (\<lambda>m. (m_id m, m_tenant_id m, m_conversa_id m))
        (appended_messages (db demo_world)
           (db (snd (createByTenantId demo_world ''m9'' ''tB'' ''cA'' (demo_tenant_data ''customer'')))))
       = [(''m9'', ''tB'', ''cA'')]
   \<and> (\<exists>r. getById (db (snd (createByTenantId demo_world ''m9'' ''tB'' ''cA''
                                (demo_tenant_data ''customer'')))) ''cA'' ''uA'' = Inr r
          \<and> cr_tenant_id r = ''tA'' \<and> cr_last_message r = Some ''Ola'')
   \<and> (\<exists>r. inbox_of (snd (createByTenantId demo_world ''m9'' ''tB'' ''cA''
                             (demo_tenant_data ''customer''))) ''sA''
            = [(''message:new'', MessagePayload r)] \<and> mr_tenant_id r = ''tB'')"
  by (simp add: createByTenantId_def getById_def mapConversationToResponse_def getById_join_def
        joined_contato_def joined_agent_def eval_defs demo_defs)

section \<open>Conversation events\<close>

text \<open>
  Claim C7, at the input where the code departs from it. \<open>updateStatus\<close> and \<open>assignAgent\<close>
  change the conversation \<open>cA\<close> of tenant \<open>tA\<close>, and the webhook handler creates the
  conversation \<open>c9\<close> for a new customer, while the two connections in the room of tenant
  \<open>tA\<close> are sent nothing: no operation calls \<open>emitConversationUpdate\<close> or
  \<open>emitNewConversation\<close>. (\<open>emitConversationUpdate_inbox\<close> and \<open>emitNewConversation_inbox\<close>: the
  two emitters, when called, send to the members of the tenant room.)
\<close>

theorem C7_conversation_events_not_emitted:
  "(\<exists>r. fst (updateStatus demo_world ''cA'' ''uA'' ''resolved'') = Inr r \<and> cr_status r = ''resolved'')
   \<and> map c_status (rows_of (conversas (db (snd (updateStatus demo_world ''cA'' ''uA'' ''resolved'')))))
       = [''resolvida'', ''aberta'']
   \<and> member_of demo_world ''sA'' (tenant_room ''tA'')
   \<and> member_of demo_world ''sA2'' (tenant_room ''tA'')
   \<and> inbox_of (snd (updateStatus demo_world ''cA'' ''uA'' ''resolved'')) ''sA'' = []
   \<and> inbox_of (snd (updateStatus demo_world ''cA'' ''uA'' ''resolved'')) ''sA2'' = []
   \<and> (\<exists>r. fst (assignAgent demo_world ''cA'' ''uA'' ''ag1'') = Inr r
          \<and> cr_agent_id r = Some ''ag1'' \<and> cr_status r = ''in_progress'')
   \<and> inbox_of (snd (assignAgent demo_world ''cA'' ''uA'' ''ag1'')) ''sA'' = []
   \<and> inbox_of (snd (assignAgent demo_world ''cA'' ''uA'' ''ag1'')) ''sA2'' = []
   \<and> fst (channel_message demo_world ''c9'' ''m9'' ''whatsapp'' ''ch1'' (demo_body ''5599''))
       = Inr (Received ''c9'' 7)
   \<and> map c_id (rows_of (conversas
        (db (snd (channel_message demo_world ''c9'' ''m9'' ''whatsapp'' ''ch1'' (demo_body ''5599''))))))
       = [''cA'', ''cB'', ''c9'']
   \<and> inbox_of (snd (channel_message demo_world ''c9'' ''m9'' ''whatsapp'' ''ch1'' (demo_body ''5599''))) ''sA'' = []
   \<and> inbox_of (snd (channel_message demo_world ''c9'' ''m9'' ''whatsapp'' ''ch1'' (demo_body ''5599''))) ''sA2'' = []"
  by (simp add: updateStatus_def assignAgent_def channel_message_def getById_def
        update_status_rows_def assign_agent_rows_def mapConversationToResponse_def getById_join_def
        joined_contato_def joined_agent_def mapStatusToPt_def mapStatusToEn_def statusEnToPt_def
        statusPtToEn_def toLowerCase_def lower_char_def eval_defs demo_defs)

section \<open>Webhook signatures\<close>

text \<open>
  Claim C8, at the input where the code departs from it. With the secret \<open>s3cret\<close>
  configured, a request without any signature header is refused by the middleware, but
  the route \<open>POST /channels/:type/:id\<close> is registered without the middleware: the request
  resolves the tenant and the conversation and stores the message. (On the routes that
  have the middleware, \<open>validateWebhookSignature_accepts\<close>: an accepted request presented
  the secret or the HMAC of the serialised body; \<open>validateWebhookSignature_disabled\<close>: no
  secret, no check; \<open>validateWebhookSignature_throws\<close>: a \<open>sha256=\<close> signature of another
  length makes \<open>timingSafeEqual\<close> throw.)
\<close>

theorem C8_channel_route_unsigned:
  "validateWebhookSignature hmac_hex (Some ''s3cret'')
       \<lparr>x_webhook_signature = None, x_webhook_secret = None\<rparr> ''{}''
     = NextError (UnauthorizedError ''Missing webhook signature'')
   \<and> validates_signature N8nMessage
   \<and> \<not> validates_signature (ChannelMessage ''whatsapp'' ''ch1'')
   \<and> fst (post_channel_message hmac_hex (Some ''s3cret'')
             \<lparr>x_webhook_signature = None, x_webhook_secret = None\<rparr> ''{}''
             demo_world ''c9'' ''m9'' ''whatsapp'' ''ch1'' (demo_body ''5511''))
       = Inr (Received ''cA'' 7)
   \<and> map m_id (appended_messages (db demo_world)
        (db (snd (post_channel_message hmac_hex (Some ''s3cret'')
                    \<lparr>x_webhook_signature = None, x_webhook_secret = None\<rparr> ''{}''
                    demo_world ''c9'' ''m9'' ''whatsapp'' ''ch1'' (demo_body ''5511'')))))
       = [''m9'']"
  by (simp add: validateWebhookSignature_def post_channel_message_def channel_message_def
        eval_defs demo_defs)

section \<open>Concurrent deliveries\<close>

text \<open>
  Claim C9, at the input where the code departs from it. Two deliveries of the same
  customer on the same channel, resumed in turn at each \<open>await\<close>: both look the
  conversation up before either inserts, both insert, and the table holds the two
  conversations \<open>c8\<close> and \<open>c9\<close> for the one (tenant, channel, customer). Run one after the
  other, the second delivery finds the conversation of the first. (\<open>run_alone\<close>: a
  request run alone through its four statements is the handler \<open>channel_message\<close>.)
\<close>

theorem C9_concurrent_lookup_then_insert:
  "map snd (snd (run demo_world
                   [(demo_request ''c8'' ''m8'', AtChannelLookup),
                    (demo_request ''c9'' ''m9'', AtChannelLookup)]
                   [0, 1, 0, 1, 0, 1, 0, 1]))
     = [Finished (Inr (Received ''c8'' 7)), Finished (Inr (Received ''c9'' 7))]
   \<and> map c_id (filter (\<lambda>c. c_cliente_id c = Some ''5599'' \<and> c_canal c = ''whatsapp''
                             \<and> c_tenant_id c = ''tA'')
        (rows_of (conversas (db (fst (run demo_world
                   [(demo_request ''c8'' ''m8'', AtChannelLookup),
                    (demo_request ''c9'' ''m9'', AtChannelLookup)]
                   [0, 1, 0, 1, 0, 1, 0, 1]))))))
       = [''c8'', ''c9'']
   \<and> map snd (snd (run demo_world
                   [(demo_request ''c8'' ''m8'', AtChannelLookup),
                    (demo_request ''c9'' ''m9'', AtChannelLookup)]
                   [0, 0, 0, 0, 1, 1, 1, 1]))
     = [Finished (Inr (Received ''c8'' 7)), Finished (Inr (Received ''c8'' 7))]"
  by (simp add: demo_request_def eval_defs demo_defs)



end
